theory Spec2Isabelle
  imports Main "HOL-Library.Word" "HOL-Library.Sublist"
begin

section \<open>JavaScript values as the extension sees them\<close>

text \<open>
  \<^verbatim>\<open>src/extension.js\<close> holds two versions of the extension; the embedding follows the later
  one (lines 357--801), which has the redirect callback. There \<^verbatim>\<open>handleAuthCallback\<close> and
  \<^verbatim>\<open>completeAuthentication\<close> are each declared twice with the same body; the later
  declaration is the one in force.

  The extension keeps its state in module-level variables and talks to two HTTPS
  endpoints and to the editor host. The embedding makes each of these explicit: the
  module variables and the host's durable key-value store are fields of one state record,
  every host effect (a notification, a console line, an outgoing request, a spawned
  process, an opened URL) is appended to a log in that record, and what the network, the
  clock, the random source and the user answer is a parameter. Asynchronous functions
  run to completion one after the other.
\<close>

text \<open>
  A payload decoded by \<^verbatim>\<open>JSON.parse\<close>, plus \<^verbatim>\<open>undefined\<close> for what reading an absent
  property gives. Numbers are integers (milliseconds, counts) that print as plain
  decimals; fractional numbers are outside the model. An object is the association list
  of its own properties, the first entry under a name being the property. Strings are
  strings of bytes.
\<close>

datatype jsval =
    JUndefined
  | JNull
  | JBool bool
  | JNum int
  | JStr string
  | JArr "jsval list"
  | JObj "(string \<times> jsval) list"

text \<open>A module variable that starts as \<^verbatim>\<open>null\<close> and may be read back as \<^verbatim>\<open>undefined\<close>.\<close>

datatype 'a nullable = Null | Undefined | Value 'a

datatype js_error = Error string | TypeError string

fun message :: "js_error \<Rightarrow> string" where
  "message (Error m) = m"
| "message (TypeError m) = m"

text \<open>
  How an awaited call ends: it returns, it throws (the promise rejects), or it never
  settles.
\<close>

datatype 'a completion = Returns 'a | Throws js_error | Hangs

text \<open>Truthiness (\<^verbatim>\<open>!x\<close>, \<^verbatim>\<open>x && y\<close>, \<^verbatim>\<open>x || y\<close>).\<close>

fun truthy :: "jsval \<Rightarrow> bool" where
  "truthy JUndefined = False"
| "truthy JNull = False"
| "truthy (JBool b) = b"
| "truthy (JNum n) = (n \<noteq> 0)"
| "truthy (JStr s) = (s \<noteq> [])"
| "truthy (JArr xs) = True"
| "truthy (JObj kvs) = True"

fun truthy_str :: "string nullable \<Rightarrow> bool" where
  "truthy_str Null = False"
| "truthy_str Undefined = False"
| "truthy_str (Value s) = (s \<noteq> [])"

fun truthy_num :: "int nullable \<Rightarrow> bool" where
  "truthy_num Null = False"
| "truthy_num Undefined = False"
| "truthy_num (Value n) = (n \<noteq> 0)"

text \<open>\<^verbatim>\<open>x || y\<close> on payload values.\<close>

definition js_or :: "jsval \<Rightarrow> jsval \<Rightarrow> jsval" where
  "js_or x y = (if truthy x then x else y)"

text \<open>
  \<^verbatim>\<open>now >= t\<close> for a number \<open>now\<close>: \<^verbatim>\<open>null\<close> converts to 0 and \<^verbatim>\<open>undefined\<close> to NaN,
  which compares false.
\<close>

fun js_ge :: "int \<Rightarrow> int nullable \<Rightarrow> bool" where
  "js_ge now Null = (0 \<le> now)"
| "js_ge now Undefined = False"
| "js_ge now (Value t) = (t \<le> now)"

text \<open>A string nullable inside a template literal.\<close>

fun template_str :: "string nullable \<Rightarrow> string" where
  "template_str Null = ''null''"
| "template_str Undefined = ''undefined''"
| "template_str (Value s) = s"

subsection \<open>Numbers and strings\<close>

definition digit_char :: "nat \<Rightarrow> char" where
  "digit_char d = ''0123456789'' ! (d mod 10)"

function show_nat :: "nat \<Rightarrow> string" where
  "show_nat n = (if n < 10 then [digit_char n] else show_nat (n div 10) @ [digit_char (n mod 10)])"
  by pat_completeness auto
termination
  by (relation "measure (\<lambda>n. n)") auto

declare show_nat.simps [simp del]

definition show_int :: "int \<Rightarrow> string" where
  "show_int i = (if i < 0 then CHR ''-'' # show_nat (nat (- i)) else show_nat (nat i))"

text \<open>\<^verbatim>\<open>s.includes(t)\<close>: \<open>t\<close> occurs in \<open>s\<close> as a contiguous run.\<close>

fun str_includes :: "string \<Rightarrow> string \<Rightarrow> bool" where
  "str_includes [] t = (t = [])"
| "str_includes (c # cs) t = (prefix t (c # cs) \<or> str_includes cs t)"

text \<open>\<^verbatim>\<open>xs.join(sep)\<close> on strings already converted.\<close>

fun join_strs :: "string \<Rightarrow> string list \<Rightarrow> string" where
  "join_strs sep [] = []"
| "join_strs sep [x] = x"
| "join_strs sep (x # y # ys) = x @ sep @ join_strs sep (y # ys)"

text \<open>
  \<^verbatim>\<open>String(v)\<close> as \<^verbatim>\<open>join\<close> applies it; an array converts by joining its elements with a
  comma, \<^verbatim>\<open>null\<close> and \<^verbatim>\<open>undefined\<close> elements giving the empty string.
\<close>

fun js_toString :: "jsval \<Rightarrow> string" where
  "js_toString JUndefined = ''undefined''"
| "js_toString JNull = ''null''"
| "js_toString (JBool b) = (if b then ''true'' else ''false'')"
| "js_toString (JNum n) = show_int n"
| "js_toString (JStr s) = s"
| "js_toString (JArr xs) =
     join_strs '','' (map (\<lambda>x. if x = JUndefined \<or> x = JNull then [] else js_toString x) xs)"
| "js_toString (JObj kvs) = ''[object Object]''"

definition array_join :: "string \<Rightarrow> jsval list \<Rightarrow> string" where
  "array_join sep xs =
     join_strs sep (map (\<lambda>x. if x = JUndefined \<or> x = JNull then [] else js_toString x) xs)"

subsection \<open>Reading properties\<close>

text \<open>Sequencing of expressions that may throw: the first error wins.\<close>

fun and_then :: "js_error + 'a \<Rightarrow> ('a \<Rightarrow> js_error + 'b) \<Rightarrow> js_error + 'b" where
  "and_then (Inl e) f = Inl e"
| "and_then (Inr v) f = f v"

definition cannot_read :: "string \<Rightarrow> string \<Rightarrow> js_error" where
  "cannot_read what p =
     TypeError (''Cannot read properties of '' @ what @ '' (reading '' @ [CHR 0x27] @ p @ [CHR 0x27] @ '')'')"

text \<open>
  \<^verbatim>\<open>v.p\<close>. Reading from \<^verbatim>\<open>null\<close> or \<^verbatim>\<open>undefined\<close> throws a TypeError; an object gives its
  own property or \<^verbatim>\<open>undefined\<close>; strings and arrays have \<^verbatim>\<open>length\<close>; no other name the
  extension reads (\<^verbatim>\<open>item\<close>, \<^verbatim>\<open>id\<close>, \<^verbatim>\<open>name\<close>, \<^verbatim>\<open>artists\<close>, \<^verbatim>\<open>album\<close>, \<^verbatim>\<open>images\<close>,
  \<^verbatim>\<open>url\<close>, \<^verbatim>\<open>is_playing\<close>, \<^verbatim>\<open>progress_ms\<close>, \<^verbatim>\<open>duration_ms\<close>) is inherited by a decoded value.
\<close>

fun get_prop :: "jsval \<Rightarrow> string \<Rightarrow> js_error + jsval" where
  "get_prop JUndefined p = Inl (cannot_read ''undefined'' p)"
| "get_prop JNull p = Inl (cannot_read ''null'' p)"
| "get_prop (JObj kvs) p = Inr (case map_of kvs p of None \<Rightarrow> JUndefined | Some v \<Rightarrow> v)"
| "get_prop (JStr s) p = Inr (if p = ''length'' then JNum (int (length s)) else JUndefined)"
| "get_prop (JArr xs) p = Inr (if p = ''length'' then JNum (int (length xs)) else JUndefined)"
| "get_prop (JBool b) p = Inr JUndefined"
| "get_prop (JNum n) p = Inr JUndefined"

text \<open>\<^verbatim>\<open>v[0]\<close>.\<close>

fun index0 :: "jsval \<Rightarrow> js_error + jsval" where
  "index0 JUndefined = Inl (cannot_read ''undefined'' ''0'')"
| "index0 JNull = Inl (cannot_read ''null'' ''0'')"
| "index0 (JArr xs) = Inr (case xs of [] \<Rightarrow> JUndefined | x # _ \<Rightarrow> x)"
| "index0 (JStr s) = Inr (case s of [] \<Rightarrow> JUndefined | c # _ \<Rightarrow> JStr [c])"
| "index0 (JObj kvs) = Inr (case map_of kvs ''0'' of None \<Rightarrow> JUndefined | Some v \<Rightarrow> v)"
| "index0 (JBool b) = Inr JUndefined"
| "index0 (JNum n) = Inr JUndefined"

text \<open>\<^verbatim>\<open>v?.p\<close>.\<close>

definition opt_chain :: "jsval \<Rightarrow> string \<Rightarrow> js_error + jsval" where
  "opt_chain v p = (if v = JUndefined \<or> v = JNull then Inr JUndefined else get_prop v p)"

text \<open>
  \<^verbatim>\<open>artists.map(a => a.name)\<close>: only an array has a callable \<^verbatim>\<open>map\<close>; the callback throws
  on a \<^verbatim>\<open>null\<close> element.
\<close>

fun map_names :: "jsval list \<Rightarrow> js_error + jsval list" where
  "map_names [] = Inr []"
| "map_names (a # as) =
     and_then (get_prop a ''name'') (\<lambda>n. and_then (map_names as) (\<lambda>ns. Inr (n # ns)))"

fun artists_map :: "jsval \<Rightarrow> js_error + jsval list" where
  "artists_map (JArr xs) = map_names xs"
| "artists_map JUndefined = Inl (cannot_read ''undefined'' ''map'')"
| "artists_map JNull = Inl (cannot_read ''null'' ''map'')"
| "artists_map v = Inl (TypeError ''data.item.artists.map is not a function'')"

section \<open>The extension's state and its collaborators\<close>

text \<open>
  \<^verbatim>\<open>context.globalState\<close>, the host's durable key-value store, as the extension uses it:
  three keys, each field being the entry under the key of that name
  (\<^verbatim>\<open>'spotifyAccessToken'\<close>, \<^verbatim>\<open>'spotifyTokenExpiresAt'\<close>, \<^verbatim>\<open>'pendingCodeVerifier'\<close>).
  \<^verbatim>\<open>get(key)\<close> reads the field and \<^verbatim>\<open>update(key, v)\<close> replaces it; an absent entry is
  \<^verbatim>\<open>Undefined\<close>, which is also what updating to \<^verbatim>\<open>undefined\<close> leaves. The store outlives the
  process; an update is taken to succeed.
\<close>

record memento =
  spotifyAccessToken :: "string nullable"
  spotifyTokenExpiresAt :: "int nullable"
  pendingCodeVerifierEntry :: "string nullable"

text \<open>An outgoing HTTPS request: the options object and the body written to it.\<close>

record http_request =
  hostname :: string
  path :: string
  http_method :: string
  headers :: "(string \<times> string) list"
  timeout :: "nat option"
  postData :: string

text \<open>
  What the network does with a request: a complete response with its status code, its
  body text and what \<^verbatim>\<open>JSON.parse\<close> makes of that text (\<open>None\<close> when it throws); a response
  that is cut off, its status having arrived and the connection closing before the body
  ends, which emits neither \<^verbatim>\<open>'end'\<close> on the response nor \<^verbatim>\<open>'error'\<close> on the request; a
  socket error before any response; or no answer at all.
\<close>

datatype 'j http_outcome =
    HttpResponse nat string "'j option"
  | HttpCutOff nat
  | HttpError js_error
  | HttpNoAnswer

datatype ui_message = ErrorMessage string | InformationMessage string

record ext_state =
  spotifyPanel :: bool
  updateInterval :: bool
  accessToken :: "string nullable"
  tokenExpiresAt :: "int nullable"
  lastTrackId :: jsval
  pendingCodeVerifier :: "string nullable"
  globalState :: memento
  clientIdSetting :: "string option"
  requests :: "http_request list"
  notifications :: "ui_message list"
  console :: "string list"
  spawned :: "string list"
  opened :: "string list"

definition showErrorMessage :: "string \<Rightarrow> ext_state \<Rightarrow> ext_state" where
  "showErrorMessage m s = s\<lparr>notifications := notifications s @ [ErrorMessage m]\<rparr>"

definition showInformationMessage :: "string \<Rightarrow> ext_state \<Rightarrow> ext_state" where
  "showInformationMessage m s = s\<lparr>notifications := notifications s @ [InformationMessage m]\<rparr>"

definition console_error :: "string \<Rightarrow> ext_state \<Rightarrow> ext_state" where
  "console_error m s = s\<lparr>console := console s @ [m]\<rparr>"

section \<open>The poller\<close>

text \<open>
  The object handed to the display. A track snapshot has no \<^verbatim>\<open>error\<close> property, which
  reads as \<^verbatim>\<open>undefined\<close>.
\<close>

record snapshot =
  isPlaying :: jsval
  track :: jsval
  artist :: jsval
  album :: jsval
  albumArt :: jsval
  progress :: jsval
  duration :: jsval
  error :: jsval

definition createEmptyTrackInfo :: "string \<Rightarrow> string \<Rightarrow> snapshot" where
  "createEmptyTrackInfo artist' album' =
     \<lparr>isPlaying = JBool False, track = JNull, artist = JStr artist', album = JStr album',
      albumArt = JStr [], progress = JNum 0, duration = JNum 0, error = JBool True\<rparr>"

text \<open>
  \<^verbatim>\<open>spotifyApiRequest(path)\<close>: a 204 resolves to \<^verbatim>\<open>null\<close> as soon as the status arrives; a
  200 resolves to the decoded body or rejects when decoding throws; any other status
  rejects with the status and the body; a socket error rejects with that error; five
  seconds without an answer reject with a timeout. The response itself is listened to for
  \<^verbatim>\<open>'data'\<close> and \<^verbatim>\<open>'end'\<close> only, so a response other than a 204 that is cut off settles the
  promise neither way.
\<close>

definition spotifyApiOptions :: "string \<Rightarrow> ext_state \<Rightarrow> http_request" where
  "spotifyApiOptions path' s =
     \<lparr>hostname = ''api.spotify.com'', path = path', http_method = ''GET'',
      headers = [(''Authorization'', ''Bearer '' @ template_str (accessToken s)),
                 (''Content-Type'', ''application/json'')],
      timeout = Some 5000, postData = []\<rparr>"

definition spotifyApiRequest ::
  "(http_request \<Rightarrow> jsval http_outcome) \<Rightarrow> string \<Rightarrow> ext_state \<Rightarrow> jsval completion \<times> ext_state" where
  "spotifyApiRequest transport path' s =
     (let options = spotifyApiOptions path' s;
          s' = s\<lparr>requests := requests s @ [options]\<rparr>
      in (case transport options of
            HttpResponse statusCode data parsed \<Rightarrow>
              if statusCode = 204 then Returns JNull
              else if statusCode = 200 then
                (case parsed of
                   Some v \<Rightarrow> Returns v
                 | None \<Rightarrow> Throws (Error ''Failed to parse response''))
              else Throws (Error (show_nat statusCode @ '': '' @ data))
          | HttpCutOff statusCode \<Rightarrow> if statusCode = 204 then Returns JNull else Hangs
          | HttpError e \<Rightarrow> Throws e
          | HttpNoAnswer \<Rightarrow> Throws (Error ''Request timeout''),
          s'))"

text \<open>The object literal that \<^verbatim>\<open>getCurrentTrack\<close> returns, its properties evaluated in order.\<close>

definition trackInfo :: "jsval \<Rightarrow> js_error + snapshot" where
  "trackInfo data =
     and_then (get_prop data ''is_playing'') (\<lambda>is_playing.
     and_then (get_prop data ''item'') (\<lambda>item.
     and_then (get_prop item ''name'') (\<lambda>name.
     and_then (get_prop item ''artists'') (\<lambda>artists.
     and_then (artists_map artists) (\<lambda>names.
     and_then (get_prop item ''album'') (\<lambda>album'.
     and_then (get_prop album' ''name'') (\<lambda>album_name.
     and_then (get_prop album' ''images'') (\<lambda>images.
     and_then (index0 images) (\<lambda>first_image.
     and_then (opt_chain first_image ''url'') (\<lambda>url.
     and_then (get_prop data ''progress_ms'') (\<lambda>progress_ms.
     and_then (get_prop item ''duration_ms'') (\<lambda>duration_ms.
       Inr \<lparr>isPlaying = is_playing, track = name,
            artist = JStr (array_join '', '' names), album = album_name,
            albumArt = js_or url (JStr []), progress = js_or progress_ms (JNum 0),
            duration = js_or duration_ms (JNum 0), error = JUndefined\<rparr>))))))))))))"

text \<open>
  The body of the \<^verbatim>\<open>try\<close> block after the request has resolved to \<open>data\<close>. The last
  track id is only recorded: either way the variable ends up holding the current id.
\<close>

definition getCurrentTrack_try :: "jsval \<Rightarrow> ext_state \<Rightarrow> (js_error + snapshot) \<times> ext_state" where
  "getCurrentTrack_try data s =
     (if \<not> truthy data then
        (Inr (createEmptyTrackInfo ''No track playing'' ''Start playing music on Spotify''), s)
      else case get_prop data ''item'' of
        Inl e \<Rightarrow> (Inl e, s)
      | Inr item \<Rightarrow>
          if \<not> truthy item then
            (Inr (createEmptyTrackInfo ''No track playing'' ''Start playing music on Spotify''), s)
          else case get_prop item ''id'' of
            Inl e \<Rightarrow> (Inl e, s)
          | Inr currentTrackId \<Rightarrow>
              (let s' = (if lastTrackId s \<noteq> currentTrackId
                         then s\<lparr>lastTrackId := currentTrackId\<rparr> else s)
               in (trackInfo data, s')))"

text \<open>The \<^verbatim>\<open>catch\<close> block.\<close>

definition getCurrentTrack_catch :: "js_error \<Rightarrow> ext_state \<Rightarrow> snapshot completion \<times> ext_state" where
  "getCurrentTrack_catch e s =
     (let s' = showErrorMessage (''Spotify API error: '' @ message e) s
      in if str_includes (message e) ''401''
         then (Returns (createEmptyTrackInfo ''Authentication expired'' ''Please re-authenticate''), s')
         else (Returns (createEmptyTrackInfo ''Connecting...'' ''Loading track info''), s'))"

definition getCurrentTrack ::
  "(http_request \<Rightarrow> jsval http_outcome) \<Rightarrow> int \<Rightarrow> ext_state \<Rightarrow> snapshot completion \<times> ext_state" where
  \<open>getCurrentTrack transport now s =
     (if truthy_num (tokenExpiresAt s) \<and> js_ge now (tokenExpiresAt s) then
        (Returns (createEmptyTrackInfo ''Token expired'' ''Please re-authenticate with Spotify''), s)
      else if \<not> truthy_str (accessToken s) then
        (Returns (createEmptyTrackInfo ''Not authenticated''
                    ''Run "Authenticate with Spotify" command''), s)
      else case spotifyApiRequest transport ''/v1/me/player/currently-playing'' s of
        (Returns data, s1) \<Rightarrow>
          (case getCurrentTrack_try data s1 of
             (Inr info, s2) \<Rightarrow> (Returns info, s2)
           | (Inl e, s2) \<Rightarrow> getCurrentTrack_catch e s2)
      | (Throws e, s1) \<Rightarrow> getCurrentTrack_catch e s1
      | (Hangs, s1) \<Rightarrow> (Hangs, s1))\<close>

section \<open>The authenticator\<close>

definition REDIRECT_URI :: string where
  "REDIRECT_URI = ''https://itsnotalexy.github.io/vscode-spotify-widget-auth/callback''"

definition SCOPES :: string where
  "SCOPES = ''user-read-playback-state user-modify-playback-state user-read-currently-playing''"

text \<open>The configured client id when it is set and non-empty, the built-in one otherwise.\<close>

definition getClientId :: "ext_state \<Rightarrow> string" where
  "getClientId s =
     (case clientIdSetting s of
        Some c \<Rightarrow> if c \<noteq> [] then c else ''ac8d0a8761004cfbb0b582950be8314c''
      | None \<Rightarrow> ''ac8d0a8761004cfbb0b582950be8314c'')"

subsection \<open>Verifier and challenge\<close>

text \<open>
  \<^verbatim>\<open>generateRandomString(length)\<close>; the random bytes come from the host
  (\<^verbatim>\<open>crypto.getRandomValues\<close>), here a parameter.
\<close>

definition possible :: string where
  "possible = ''ABCDEFGHIJKLMNOPQRSTUVWXYZabcdefghijklmnopqrstuvwxyz0123456789''"

definition generateRandomString :: "(nat \<Rightarrow> 8 word list) \<Rightarrow> nat \<Rightarrow> string" where
  "generateRandomString getRandomValues len =
     foldl (\<lambda>acc x. acc @ [possible ! (unat x mod length possible)]) [] (getRandomValues len)"

text \<open>\<^verbatim>\<open>buffer.toString('base64')\<close>: the standard alphabet, padded with \<^verbatim>\<open>=\<close>.\<close>

definition base64_alphabet :: string where
  "base64_alphabet = ''ABCDEFGHIJKLMNOPQRSTUVWXYZabcdefghijklmnopqrstuvwxyz0123456789+/''"

fun toString_base64 :: "8 word list \<Rightarrow> string" where
  "toString_base64 [] = []"
| "toString_base64 [a] =
     [base64_alphabet ! (unat a div 4), base64_alphabet ! (unat a mod 4 * 16),
      CHR ''='', CHR ''='']"
| "toString_base64 [a, b] =
     [base64_alphabet ! (unat a div 4), base64_alphabet ! (unat a mod 4 * 16 + unat b div 16),
      base64_alphabet ! (unat b mod 16 * 4), CHR ''='']"
| "toString_base64 (a # b # c # rest) =
     [base64_alphabet ! (unat a div 4), base64_alphabet ! (unat a mod 4 * 16 + unat b div 16),
      base64_alphabet ! (unat b mod 16 * 4 + unat c div 64), base64_alphabet ! (unat c mod 64)]
     @ toString_base64 rest"

text \<open>\<^verbatim>\<open>s.replace(/c/g, r)\<close> for a single character \<open>c\<close>.\<close>

definition replace_all :: "char \<Rightarrow> string \<Rightarrow> string \<Rightarrow> string" where
  "replace_all c r s = concat (map (\<lambda>x. if x = c then r else [x]) s)"

definition base64URLEncode :: "8 word list \<Rightarrow> string" where
  "base64URLEncode buffer =
     replace_all (CHR ''='') [] (replace_all (CHR ''/'') ''_'' (replace_all (CHR ''+'') ''-''
       (toString_base64 buffer)))"

text \<open>
  \<^verbatim>\<open>generateCodeChallenge(codeVerifier)\<close>; the SHA-256 digest is the host's
  (\<^verbatim>\<open>crypto.createHash('sha256')\<close>), here a parameter.
\<close>

definition generateCodeChallenge :: "(string \<Rightarrow> 8 word list) \<Rightarrow> string \<Rightarrow> string" where
  "generateCodeChallenge sha256 codeVerifier = base64URLEncode (sha256 codeVerifier)"

text \<open>
  The reference the specification names: base64url without padding (RFC 4648, section 5),
  written directly over the URL-safe alphabet, three bytes to four characters, a last
  group of one byte to two characters and of two bytes to three.
\<close>

definition base64url_alphabet :: string where
  "base64url_alphabet = ''ABCDEFGHIJKLMNOPQRSTUVWXYZabcdefghijklmnopqrstuvwxyz0123456789-_''"

fun spec_base64url_nopad :: "8 word list \<Rightarrow> string" where
  "spec_base64url_nopad [] = []"
| "spec_base64url_nopad [a] =
     [base64url_alphabet ! (unat a div 4), base64url_alphabet ! (unat a mod 4 * 16)]"
| "spec_base64url_nopad [a, b] =
     [base64url_alphabet ! (unat a div 4),
      base64url_alphabet ! (unat a mod 4 * 16 + unat b div 16),
      base64url_alphabet ! (unat b mod 16 * 4)]"
| "spec_base64url_nopad (a # b # c # rest) =
     [base64url_alphabet ! (unat a div 4),
      base64url_alphabet ! (unat a mod 4 * 16 + unat b div 16),
      base64url_alphabet ! (unat b mod 16 * 4 + unat c div 64),
      base64url_alphabet ! (unat c mod 64)]
     @ spec_base64url_nopad rest"

definition spec_challenge :: "(string \<Rightarrow> 8 word list) \<Rightarrow> string \<Rightarrow> string" where
  "spec_challenge sha256 codeVerifier = spec_base64url_nopad (sha256 codeVerifier)"

subsection \<open>URL encoding\<close>

definition hex_digit :: "nat \<Rightarrow> char" where
  "hex_digit d = ''0123456789ABCDEF'' ! (d mod 16)"

definition percent_encode :: "char \<Rightarrow> string" where
  "percent_encode c = [CHR ''%'', hex_digit (of_char c div 16), hex_digit (of_char c mod 16)]"

definition alphanumeric :: string where
  "alphanumeric = ''ABCDEFGHIJKLMNOPQRSTUVWXYZabcdefghijklmnopqrstuvwxyz0123456789''"

text \<open>\<^verbatim>\<open>encodeURIComponent\<close> on a string of bytes.\<close>

definition encodeURIComponent :: "string \<Rightarrow> string" where
  "encodeURIComponent s =
     concat (map (\<lambda>c. if c \<in> set (alphanumeric @ ''-_.!~*'' @ [CHR 0x27] @ ''()'')
                       then [c] else percent_encode c) s)"

text \<open>\<^verbatim>\<open>new URLSearchParams({...}).toString()\<close>: the form-urlencoded serialisation.\<close>

definition form_urlencode :: "string \<Rightarrow> string" where
  "form_urlencode s =
     concat (map (\<lambda>c. if c = CHR '' '' then ''+''
                       else if c \<in> set (alphanumeric @ ''*-._'') then [c]
                       else percent_encode c) s)"

definition URLSearchParams_toString :: "(string \<times> string) list \<Rightarrow> string" where
  "URLSearchParams_toString kvs =
     join_strs ''&'' (map (\<lambda>(k, v). form_urlencode k @ ''='' @ form_urlencode v) kvs)"

subsection \<open>Token exchange\<close>

text \<open>
  The token endpoint's answer as the extension reads it: \<^verbatim>\<open>access_token\<close>, a string, and
  \<^verbatim>\<open>expires_in\<close>, a whole number of seconds. A 200 body that decodes to anything else is
  outside the model.
\<close>

record token_response =
  access_token :: string
  expires_in :: int

definition exchangeOptions :: "string \<Rightarrow> http_request" where
  "exchangeOptions postData' =
     \<lparr>hostname = ''accounts.spotify.com'', path = ''/api/token'', http_method = ''POST'',
      headers = [(''Content-Type'', ''application/x-www-form-urlencoded''),
                 (''Content-Length'', show_nat (length postData'))],
      timeout = None, postData = postData'\<rparr>"

text \<open>
  \<^verbatim>\<open>exchangeCodeForToken\<close>: a 200 resolves to the decoded body, any other status rejects
  with the body, a socket error rejects with that error. No timeout is set, so a server
  that never answers leaves the promise unsettled; so does a 200 whose body does not
  decode, since \<^verbatim>\<open>JSON.parse\<close> then throws inside the response listener, outside the
  promise's executor; and so does a response that is cut off.
\<close>

definition exchangeCodeForToken ::
  "(http_request \<Rightarrow> token_response http_outcome) \<Rightarrow> string \<Rightarrow> string \<Rightarrow> string \<Rightarrow> ext_state
     \<Rightarrow> token_response completion \<times> ext_state" where
  "exchangeCodeForToken transport code codeVerifier clientId s =
     (let postData' = URLSearchParams_toString
            [(''client_id'', clientId), (''grant_type'', ''authorization_code''), (''code'', code),
             (''redirect_uri'', REDIRECT_URI), (''code_verifier'', codeVerifier)];
          options = exchangeOptions postData';
          s' = s\<lparr>requests := requests s @ [options]\<rparr>
      in (case transport options of
            HttpResponse statusCode data parsed \<Rightarrow>
              if statusCode = 200 then
                (case parsed of Some tokens \<Rightarrow> Returns tokens | None \<Rightarrow> Hangs)
              else Throws (Error (''Token exchange failed: '' @ data))
          | HttpCutOff statusCode \<Rightarrow> Hangs
          | HttpError e \<Rightarrow> Throws e
          | HttpNoAnswer \<Rightarrow> Hangs,
          s'))"

text \<open>\<^verbatim>\<open>completeAuthentication\<close>; \<open>now\<close> is what \<^verbatim>\<open>Date.now()\<close> reads, in milliseconds.\<close>

definition completeAuthentication ::
  "(http_request \<Rightarrow> token_response http_outcome) \<Rightarrow> int \<Rightarrow> string \<Rightarrow> string \<Rightarrow> string
     \<Rightarrow> ext_state \<Rightarrow> unit completion \<times> ext_state" where
  "completeAuthentication transport now code codeVerifier clientId s =
     (case exchangeCodeForToken transport code codeVerifier clientId s of
        (Returns tokens, s1) \<Rightarrow>
          (let s2 = s1\<lparr>accessToken := Value (access_token tokens)\<rparr>;
               s3 = s2\<lparr>tokenExpiresAt := Value (now + expires_in tokens * 1000)\<rparr>;
               s4 = s3\<lparr>globalState := (globalState s3)\<lparr>spotifyAccessToken := accessToken s3\<rparr>\<rparr>;
               s5 = s4\<lparr>globalState := (globalState s4)\<lparr>spotifyTokenExpiresAt := tokenExpiresAt s4\<rparr>\<rparr>
           in (Returns (), showInformationMessage ''Successfully authenticated with Spotify!'' s5))
      | (Throws e, s1) \<Rightarrow>
          (Throws e, showErrorMessage (''Authentication failed: '' @ message e) s1)
      | (Hangs, s1) \<Rightarrow> (Hangs, s1))"



text \<open>
  \<^verbatim>\<open>s.trim()\<close> on a string of bytes: ASCII white space is removed at both ends (white
  space outside ASCII is not modelled).
\<close>

definition is_space :: "char \<Rightarrow> bool" where
  "is_space c = (c \<in> set [CHR 0x09, CHR 0x0A, CHR 0x0B, CHR 0x0C, CHR 0x0D, CHR 0x20])"

definition trim :: "string \<Rightarrow> string" where
  "trim s = rev (dropWhile is_space (rev (dropWhile is_space s)))"

text \<open>
  \<^verbatim>\<open>authenticateSpotify\<close>. \<open>result\<close> is the button the user picks in the first dialog
  and \<open>manualInput\<close> what the input box returns (\<open>None\<close> for \<^verbatim>\<open>undefined\<close>); the steps run
  one after the other, with no callback arriving in between.
\<close>

definition authenticateSpotify ::
  "(http_request \<Rightarrow> token_response http_outcome) \<Rightarrow> int \<Rightarrow> (nat \<Rightarrow> 8 word list)
     \<Rightarrow> (string \<Rightarrow> 8 word list) \<Rightarrow> string option \<Rightarrow> string option \<Rightarrow> ext_state
     \<Rightarrow> unit completion \<times> ext_state" where
  \<open>authenticateSpotify transport now getRandomValues sha256 result manualInput s =
     (let clientId = getClientId s;
          codeVerifier = generateRandomString getRandomValues 128;
          codeChallenge = generateCodeChallenge sha256 codeVerifier;
          s1 = s\<lparr>pendingCodeVerifier := Value codeVerifier\<rparr>;
          s2 = s1\<lparr>globalState := (globalState s1)\<lparr>pendingCodeVerifierEntry := Value codeVerifier\<rparr>\<rparr>;
          authUrl = ''https://accounts.spotify.com/authorize?'' @
                    ''client_id='' @ clientId @ ''&'' @
                    ''response_type=code&'' @
                    ''redirect_uri='' @ encodeURIComponent REDIRECT_URI @ ''&'' @
                    ''scope='' @ encodeURIComponent SCOPES @ ''&'' @
                    ''code_challenge_method=S256&'' @
                    ''code_challenge='' @ codeChallenge @ ''&'' @
                    ''show_dialog=true'';
          s3 = showInformationMessage
                 (''You will be redirected to Spotify to authenticate. After authorizing, '' @
                  ''you can either click "Open in VS Code" on the page or paste the code manually.'')
                 s2
      in if result = Some ''Open Spotify Login'' then
           (let s4 = s3\<lparr>opened := opened s3 @ [authUrl]\<rparr>
            in case manualInput of
                 None \<Rightarrow> (Returns (), s4)
               | Some input \<Rightarrow>
                   if input = [] then (Returns (), s4)
                   else completeAuthentication transport now (trim input) codeVerifier clientId s4)
         else (Returns (), s3))\<close>

text \<open>
  What \<^verbatim>\<open>activate\<close> does to the module variables: both credentials are read from the
  store. (It also registers the commands and schedules the panel with the host.)
\<close>

definition activate :: "ext_state \<Rightarrow> ext_state" where
  "activate s =
     (let s1 = s\<lparr>accessToken := spotifyAccessToken (globalState s)\<rparr>
      in s1\<lparr>tokenExpiresAt := spotifyTokenExpiresAt (globalState s1)\<rparr>)"

section \<open>The command relay\<close>

datatype command = PlayPause | Next | Previous

fun psCommands :: "command \<Rightarrow> string" where
  "psCommands PlayPause = ''(New-Object -ComObject WScript.Shell).SendKeys([char]179)''"
| "psCommands Next = ''(New-Object -ComObject WScript.Shell).SendKeys([char]176)''"
| "psCommands Previous = ''(New-Object -ComObject WScript.Shell).SendKeys([char]177)''"

text \<open>
  What \<^verbatim>\<open>exec\<close> does with a command line: the process runs, it runs and the callback
  receives an error (carried as it prints), or the call itself throws. The console log
  keeps each line's label and the error's text; the callback's line is logged with the
  call.
\<close>

datatype exec_outcome = ExecDone | ExecFailed string | ExecThrows js_error

text \<open>The command line handed to \<^verbatim>\<open>exec\<close>.\<close>

definition commandLine :: "command \<Rightarrow> string" where
  \<open>commandLine command = ''powershell -command "'' @ psCommands command @ ''"''\<close>

definition sendSpotifyCommand ::
  "(string \<Rightarrow> exec_outcome) \<Rightarrow> command \<Rightarrow> ext_state \<Rightarrow> unit completion \<times> ext_state" where
  "sendSpotifyCommand exec command s =
     (case exec (commandLine command) of
        ExecDone \<Rightarrow> (Returns (), s\<lparr>spawned := spawned s @ [commandLine command]\<rparr>)
      | ExecFailed err \<Rightarrow>
          (Returns (), console_error (''Error sending command: '' @ err)
                         (s\<lparr>spawned := spawned s @ [commandLine command]\<rparr>))
      | ExecThrows e \<Rightarrow>
          (Returns (), showErrorMessage
                         ''Failed to control Spotify. Make sure Spotify is running.''
                         (console_error (''Error sending Spotify command: '' @ message e) s)))"

section \<open>Concrete states, payloads and collaborators\<close>

text \<open>The module variables as the file initialises them, over an empty store.\<close>

definition initial_state :: ext_state where
  "initial_state =
     \<lparr>spotifyPanel = False, updateInterval = False, accessToken = Null, tokenExpiresAt = Null,
      lastTrackId = JNull, pendingCodeVerifier = Null,
      globalState = \<lparr>spotifyAccessToken = Undefined, spotifyTokenExpiresAt = Undefined,
                      pendingCodeVerifierEntry = Undefined\<rparr>,
      clientIdSetting = None, requests = [], notifications = [], console = [], spawned = [],
      opened = []\<rparr>"

text \<open>A session holding a token that expires at instant 5000.\<close>

definition signed_in :: ext_state where
  "signed_in = initial_state\<lparr>accessToken := Value ''BQD'', tokenExpiresAt := Value 5000\<rparr>"

text \<open>A session holding a token but no expiry.\<close>

definition token_only :: ext_state where
  "token_only = initial_state\<lparr>accessToken := Value ''BQD''\<rparr>"


definition answers_204 :: "http_request \<Rightarrow> jsval http_outcome" where
  "answers_204 r = HttpResponse 204 [] None"

definition answers_401 :: "http_request \<Rightarrow> jsval http_outcome" where
  "answers_401 r = HttpResponse 401 ''The access token expired'' None"

definition never_answers :: "http_request \<Rightarrow> jsval http_outcome" where
  "never_answers r = HttpNoAnswer"

text \<open>A 200 with a page that is not JSON.\<close>

definition answers_garbled :: "http_request \<Rightarrow> jsval http_outcome" where
  "answers_garbled r = HttpResponse 200 ''<html>Sign in to the network</html>'' None"

text \<open>A 200 whose connection closes before the body has ended.\<close>

definition answers_cut_off :: "http_request \<Rightarrow> jsval http_outcome" where
  "answers_cut_off r = HttpCutOff 200"



definition token_grants :: "http_request \<Rightarrow> token_response http_outcome" where
  "token_grants r =
     HttpResponse 200 ''(token)'' (Some \<lparr>access_token = ''BQD'', expires_in = 3600\<rparr>)"

definition token_rejects :: "http_request \<Rightarrow> token_response http_outcome" where
  "token_rejects r = HttpResponse 400 ''invalid_grant'' None"

text \<open>A token endpoint (or a proxy in front of it) that answers 200 with a page that is not JSON.\<close>

definition token_garbled :: "http_request \<Rightarrow> token_response http_outcome" where
  "token_garbled r = HttpResponse 200 ''<html>Sign in to the network</html>'' None"


definition stub_digest :: "string \<Rightarrow> 8 word list" where
  "stub_digest v = [0xfb, 0xff, 0xfe, 0x01]"

definition exec_fails :: "string \<Rightarrow> exec_outcome" where
  "exec_fails line = ExecFailed ''spawn powershell ENOENT''"

section \<open>The poller's decision table\<close>

lemma getCurrentTrack_unauth:
  \<open>\<not> (truthy_num (tokenExpiresAt s) \<and> js_ge now (tokenExpiresAt s)) \<Longrightarrow>
   \<not> truthy_str (accessToken s) \<Longrightarrow>
   getCurrentTrack transport now s =
     (Returns (createEmptyTrackInfo ''Not authenticated''
                 ''Run "Authenticate with Spotify" command''), s)\<close>
  by (auto simp: getCurrentTrack_def)

lemma getCurrentTrack_fetch:
  "\<not> (truthy_num (tokenExpiresAt s) \<and> js_ge now (tokenExpiresAt s)) \<Longrightarrow>
   truthy_str (accessToken s) \<Longrightarrow>
   getCurrentTrack transport now s =
     (case spotifyApiRequest transport ''/v1/me/player/currently-playing'' s of
        (Returns data, s1) \<Rightarrow>
          (case getCurrentTrack_try data s1 of
             (Inr info, s2) \<Rightarrow> (Returns info, s2)
           | (Inl e, s2) \<Rightarrow> getCurrentTrack_catch e s2)
      | (Throws e, s1) \<Rightarrow> getCurrentTrack_catch e s1
      | (Hangs, s1) \<Rightarrow> (Hangs, s1))"
  by (auto simp: getCurrentTrack_def)

lemma getCurrentTrack_catch_Returns:
  "\<exists>snap s'. getCurrentTrack_catch e s = (Returns snap, s') \<and>
     (snap = createEmptyTrackInfo ''Authentication expired'' ''Please re-authenticate'' \<or>
      snap = createEmptyTrackInfo ''Connecting...'' ''Loading track info'')"
  by (simp add: getCurrentTrack_catch_def Let_def)

lemma getCurrentTrack_try_cases:
  "(\<exists>e s'. getCurrentTrack_try data s = (Inl e, s')) \<or>
   (\<exists>s'. getCurrentTrack_try data s =
       (Inr (createEmptyTrackInfo ''No track playing'' ''Start playing music on Spotify''), s')) \<or>
   (\<exists>snap s'. getCurrentTrack_try data s = (Inr snap, s') \<and> trackInfo data = Inr snap)"
  unfolding getCurrentTrack_try_def
  by (cases "trackInfo data") (auto simp: Let_def split: sum.splits)

lemma spotifyApiRequest_state:
  "snd (spotifyApiRequest transport p s) = s\<lparr>requests := requests s @ [spotifyApiOptions p s]\<rparr>"
  by (simp add: spotifyApiRequest_def Let_def)

lemma signed_in_fresh:
  "\<not> (truthy_num (tokenExpiresAt signed_in) \<and> js_ge 1000 (tokenExpiresAt signed_in))"
  "truthy_str (accessToken signed_in)"
  by (simp_all add: signed_in_def initial_state_def)

lemma getCurrentTrack_never_throws:
  "fst (getCurrentTrack transport now s) \<noteq> Throws e"
proof (cases "truthy_num (tokenExpiresAt s) \<and> js_ge now (tokenExpiresAt s)")
  case True
  then show ?thesis by (simp add: getCurrentTrack_def)
next
  case fresh: False
  show ?thesis
  proof (cases "truthy_str (accessToken s)")
    case False
    with fresh show ?thesis by (simp add: getCurrentTrack_unauth)
  next
    case True
    obtain r s1 where req:
      "spotifyApiRequest transport ''/v1/me/player/currently-playing'' s = (r, s1)"
      by (cases "spotifyApiRequest transport ''/v1/me/player/currently-playing'' s")
    show ?thesis
    proof (cases r)
      case (Returns data)
      obtain res s2 where body: "getCurrentTrack_try data s1 = (res, s2)"
        by (cases "getCurrentTrack_try data s1")
      show ?thesis
      proof (cases res)
        case (Inl e')
        with req Returns body getCurrentTrack_catch_Returns [of e' s2] show ?thesis
          by (auto simp: getCurrentTrack_fetch [OF fresh True])
      next
        case (Inr info)
        with req Returns body show ?thesis
          by (simp add: getCurrentTrack_fetch [OF fresh True])
      qed
    next
      case (Throws e')
      with req getCurrentTrack_catch_Returns [of e' s1] show ?thesis
        by (auto simp: getCurrentTrack_fetch [OF fresh True])
    next
      case Hangs
      with req show ?thesis
        by (simp add: getCurrentTrack_fetch [OF fresh True])
    qed
  qed
qed

lemma getCurrentTrack_try_Inr:
  assumes "getCurrentTrack_try data s = (Inr snap, s')"
  shows "((\<not> truthy data \<or> (\<exists>item. get_prop data ''item'' = Inr item \<and> \<not> truthy item)) \<and>
          snap = createEmptyTrackInfo ''No track playing'' ''Start playing music on Spotify'') \<or>
         ((\<exists>item. get_prop data ''item'' = Inr item \<and> truthy item) \<and> trackInfo data = Inr snap)"
  using assms
  by (auto simp: getCurrentTrack_try_def Let_def split: if_splits sum.splits)

lemma and_then_Inr:
  "and_then x f = Inr y \<longleftrightarrow> (\<exists>v. x = Inr v \<and> f v = Inr y)"
  by (cases x) auto

lemma trackInfo_no_error: "trackInfo data = Inr snap \<Longrightarrow> error snap = JUndefined"
  unfolding trackInfo_def and_then_Inr by auto

text \<open>
  C10. \<^verbatim>\<open>createEmptyTrackInfo\<close> of a headline and a detail is the snapshot of fixed shape:
  not playing, track \<^verbatim>\<open>null\<close>, empty album art, progress and duration 0, error \<^verbatim>\<open>true\<close>,
  the headline in \<^verbatim>\<open>artist\<close> and the detail in \<^verbatim>\<open>album\<close>. And every snapshot a poll returns
  is accounted for by the branch that produced it: it is that function's value at the
  token-expired texts when the recorded expiry has been reached; at the not-authenticated
  texts when it has not and there is no token; at the no-track texts when the request
  resolved to a falsy payload or to one whose \<^verbatim>\<open>item\<close> is falsy; at the
  authentication-expired or the connecting texts, by the caught error's message, when the
  request rejected or the mapping threw; and otherwise it is the object built from the
  payload received, whose \<^verbatim>\<open>item\<close> is truthy, and it has no \<^verbatim>\<open>error\<close> property.
\<close>

theorem getCurrentTrack_degraded_shape:
  \<open>(\<forall>h d. createEmptyTrackInfo h d =
            \<lparr>isPlaying = JBool False, track = JNull, artist = JStr h, album = JStr d,
             albumArt = JStr [], progress = JNum 0, duration = JNum 0, error = JBool True\<rparr>) \<and>
   (\<forall>snap s'. getCurrentTrack transport now s = (Returns snap, s') \<longrightarrow>
      ((truthy_num (tokenExpiresAt s) \<and> js_ge now (tokenExpiresAt s)) \<and>
       snap = createEmptyTrackInfo ''Token expired'' ''Please re-authenticate with Spotify'') \<or>
      (\<not> (truthy_num (tokenExpiresAt s) \<and> js_ge now (tokenExpiresAt s)) \<and>
       \<not> truthy_str (accessToken s) \<and>
       snap = createEmptyTrackInfo ''Not authenticated''
                ''Run "Authenticate with Spotify" command'') \<or>
      (\<not> (truthy_num (tokenExpiresAt s) \<and> js_ge now (tokenExpiresAt s)) \<and>
       truthy_str (accessToken s) \<and>
       (\<exists>data. fst (spotifyApiRequest transport ''/v1/me/player/currently-playing'' s) =
                 Returns data \<and>
               (\<not> truthy data \<or>
                (\<exists>item. get_prop data ''item'' = Inr item \<and> \<not> truthy item))) \<and>
       snap = createEmptyTrackInfo ''No track playing'' ''Start playing music on Spotify'') \<or>
      (\<not> (truthy_num (tokenExpiresAt s) \<and> js_ge now (tokenExpiresAt s)) \<and>
       truthy_str (accessToken s) \<and>
       (\<exists>e. (fst (spotifyApiRequest transport ''/v1/me/player/currently-playing'' s) = Throws e \<or>
             (\<exists>data s1 s2.
                 spotifyApiRequest transport ''/v1/me/player/currently-playing'' s =
                   (Returns data, s1) \<and>
                 getCurrentTrack_try data s1 = (Inl e, s2))) \<and>
            snap = (if str_includes (message e) ''401''
                    then createEmptyTrackInfo ''Authentication expired'' ''Please re-authenticate''
                    else createEmptyTrackInfo ''Connecting...'' ''Loading track info''))) \<or>
      (\<not> (truthy_num (tokenExpiresAt s) \<and> js_ge now (tokenExpiresAt s)) \<and>
       truthy_str (accessToken s) \<and>
       (\<exists>data item.
           fst (spotifyApiRequest transport ''/v1/me/player/currently-playing'' s) =
             Returns data \<and>
           get_prop data ''item'' = Inr item \<and> truthy item \<and> trackInfo data = Inr snap) \<and>
       error snap = JUndefined))\<close>
proof (intro conjI allI impI)
  fix h d
  show "createEmptyTrackInfo h d =
            \<lparr>isPlaying = JBool False, track = JNull, artist = JStr h, album = JStr d,
             albumArt = JStr [], progress = JNum 0, duration = JNum 0, error = JBool True\<rparr>"
    by (simp add: createEmptyTrackInfo_def)
next
  fix snap s'
  let ?P = "''/v1/me/player/currently-playing''"
  let ?expired = "truthy_num (tokenExpiresAt s) \<and> js_ge now (tokenExpiresAt s)"
  let ?unauth = \<open>createEmptyTrackInfo ''Not authenticated''
                  ''Run "Authenticate with Spotify" command''\<close>
  assume ran: "getCurrentTrack transport now s = (Returns snap, s')"
  define mapped where "mapped \<longleftrightarrow>
       (\<exists>data item. fst (spotifyApiRequest transport ?P s) = Returns data \<and>
           get_prop data ''item'' = Inr item \<and> truthy item \<and> trackInfo data = Inr snap) \<and>
       error snap = JUndefined"
  define idle where "idle \<longleftrightarrow>
       (\<exists>data. fst (spotifyApiRequest transport ?P s) = Returns data \<and>
               (\<not> truthy data \<or>
                (\<exists>item. get_prop data ''item'' = Inr item \<and> \<not> truthy item))) \<and>
       snap = createEmptyTrackInfo ''No track playing'' ''Start playing music on Spotify''"
  define failed where "failed \<longleftrightarrow>
       (\<exists>e. (fst (spotifyApiRequest transport ?P s) = Throws e \<or>
             (\<exists>data s1 s2. spotifyApiRequest transport ?P s = (Returns data, s1) \<and>
                 getCurrentTrack_try data s1 = (Inl e, s2))) \<and>
            snap = (if str_includes (message e) ''401''
                    then createEmptyTrackInfo ''Authentication expired'' ''Please re-authenticate''
                    else createEmptyTrackInfo ''Connecting...'' ''Loading track info''))"
  have fetched: "idle \<or> failed \<or> mapped" if fresh: "\<not> ?expired" and token: "truthy_str (accessToken s)"
  proof -
    obtain r s1 where req: "spotifyApiRequest transport ?P s = (r, s1)"
      by (cases "spotifyApiRequest transport ?P s")
    show ?thesis
    proof (cases r)
      case (Returns data)
      obtain res s2 where body: "getCurrentTrack_try data s1 = (res, s2)"
        by (cases "getCurrentTrack_try data s1")
      show ?thesis
      proof (cases res)
        case (Inl e)
        with ran req Returns body
        have "snap = (if str_includes (message e) ''401''
                    then createEmptyTrackInfo ''Authentication expired'' ''Please re-authenticate''
                    else createEmptyTrackInfo ''Connecting...'' ''Loading track info'')"
          by (auto simp: getCurrentTrack_fetch [OF fresh token] getCurrentTrack_catch_def Let_def
              split: if_splits)
        with req Returns body Inl have failed unfolding failed_def by blast
        then show ?thesis by simp
      next
        case (Inr info)
        with ran req Returns body have "info = snap"
          by (simp add: getCurrentTrack_fetch [OF fresh token])
        with body Inr have "getCurrentTrack_try data s1 = (Inr snap, s2)" by simp
        from getCurrentTrack_try_Inr [OF this] req Returns trackInfo_no_error [of data snap]
        have "idle \<or> mapped" unfolding idle_def mapped_def by auto
        then show ?thesis by blast
      qed
    next
      case (Throws e)
      with ran req
      have "snap = (if str_includes (message e) ''401''
                    then createEmptyTrackInfo ''Authentication expired'' ''Please re-authenticate''
                    else createEmptyTrackInfo ''Connecting...'' ''Loading track info'')"
        by (auto simp: getCurrentTrack_fetch [OF fresh token] getCurrentTrack_catch_def Let_def
            split: if_splits)
      with req Throws have failed unfolding failed_def by auto
      then show ?thesis by simp
    next
      case Hangs
      with ran req show ?thesis
        by (simp add: getCurrentTrack_fetch [OF fresh token])
    qed
  qed
  have "(?expired \<and>
       snap = createEmptyTrackInfo ''Token expired'' ''Please re-authenticate with Spotify'') \<or>
      (\<not> ?expired \<and> \<not> truthy_str (accessToken s) \<and>
       snap = ?unauth) \<or>
      (\<not> ?expired \<and> truthy_str (accessToken s) \<and> idle) \<or>
      (\<not> ?expired \<and> truthy_str (accessToken s) \<and> failed) \<or>
      (\<not> ?expired \<and> truthy_str (accessToken s) \<and> mapped)"
  proof (cases ?expired)
    case True
    with ran show ?thesis by (simp add: getCurrentTrack_def)
  next
    case fresh: False
    show ?thesis
    proof (cases "truthy_str (accessToken s)")
      case False
      with ran fresh show ?thesis by (simp add: getCurrentTrack_unauth)
    next
      case True
      with fresh fetched show ?thesis by blast
    qed
  qed
  then show "(?expired \<and>
       snap = createEmptyTrackInfo ''Token expired'' ''Please re-authenticate with Spotify'') \<or>
      (\<not> ?expired \<and> \<not> truthy_str (accessToken s) \<and>
       snap = ?unauth) \<or>
      (\<not> ?expired \<and> truthy_str (accessToken s) \<and>
       (\<exists>data. fst (spotifyApiRequest transport ?P s) = Returns data \<and>
               (\<not> truthy data \<or>
                (\<exists>item. get_prop data ''item'' = Inr item \<and> \<not> truthy item))) \<and>
       snap = createEmptyTrackInfo ''No track playing'' ''Start playing music on Spotify'') \<or>
      (\<not> ?expired \<and> truthy_str (accessToken s) \<and>
       (\<exists>e. (fst (spotifyApiRequest transport ?P s) = Throws e \<or>
             (\<exists>data s1 s2. spotifyApiRequest transport ?P s = (Returns data, s1) \<and>
                 getCurrentTrack_try data s1 = (Inl e, s2))) \<and>
            snap = (if str_includes (message e) ''401''
                    then createEmptyTrackInfo ''Authentication expired'' ''Please re-authenticate''
                    else createEmptyTrackInfo ''Connecting...'' ''Loading track info''))) \<or>
      (\<not> ?expired \<and> truthy_str (accessToken s) \<and>
       (\<exists>data item. fst (spotifyApiRequest transport ?P s) = Returns data \<and>
           get_prop data ''item'' = Inr item \<and> truthy item \<and> trackInfo data = Inr snap) \<and>
       error snap = JUndefined)"
    unfolding idle_def failed_def mapped_def .
qed

theorem getCurrentTrack_degraded_shape_witness:
  "(\<exists>s'. getCurrentTrack answers_204 5000 signed_in =
      (Returns \<lparr>isPlaying = JBool False, track = JNull, artist = JStr ''Token expired'',
                album = JStr ''Please re-authenticate with Spotify'', albumArt = JStr [],
                progress = JNum 0, duration = JNum 0, error = JBool True\<rparr>, s')) \<and>
   (\<exists>s'. getCurrentTrack answers_204 1000 signed_in =
      (Returns \<lparr>isPlaying = JBool False, track = JNull, artist = JStr ''No track playing'',
                album = JStr ''Start playing music on Spotify'', albumArt = JStr [],
                progress = JNum 0, duration = JNum 0, error = JBool True\<rparr>, s'))"
proof -
  let ?P = "''/v1/me/player/currently-playing''"
  note late = getCurrentTrack_degraded_shape [of answers_204 5000 signed_in]
  note early = getCurrentTrack_degraded_shape [of answers_204 1000 signed_in]
  have expired: "truthy_num (tokenExpiresAt signed_in) \<and> js_ge 5000 (tokenExpiresAt signed_in)"
    by (simp add: signed_in_def initial_state_def)
  obtain snap s' where ran: "getCurrentTrack answers_204 5000 signed_in = (Returns snap, s')"
    using expired by (simp add: getCurrentTrack_def)
  with late expired
  have "snap = createEmptyTrackInfo ''Token expired'' ''Please re-authenticate with Spotify''"
    by blast
  with late have "snap = \<lparr>isPlaying = JBool False, track = JNull, artist = JStr ''Token expired'',
                album = JStr ''Please re-authenticate with Spotify'', albumArt = JStr [],
                progress = JNum 0, duration = JNum 0, error = JBool True\<rparr>"
    by simp
  with ran have first: "\<exists>s'. getCurrentTrack answers_204 5000 signed_in =
      (Returns \<lparr>isPlaying = JBool False, track = JNull, artist = JStr ''Token expired'',
                album = JStr ''Please re-authenticate with Spotify'', albumArt = JStr [],
                progress = JNum 0, duration = JNum 0, error = JBool True\<rparr>, s')"
    by blast
  have got: "fst (spotifyApiRequest answers_204 ?P signed_in) = Returns JNull"
    by (simp add: spotifyApiRequest_def answers_204_def Let_def)
  have "getCurrentTrack answers_204 1000 signed_in =
      (Returns (createEmptyTrackInfo ''No track playing'' ''Start playing music on Spotify''),
       snd (spotifyApiRequest answers_204 ?P signed_in))"
    using got
    by (cases "spotifyApiRequest answers_204 ?P signed_in")
       (simp add: getCurrentTrack_fetch [OF signed_in_fresh] getCurrentTrack_try_def)
  moreover from early
  have "createEmptyTrackInfo ''No track playing'' ''Start playing music on Spotify'' =
      \<lparr>isPlaying = JBool False, track = JNull, artist = JStr ''No track playing'',
                album = JStr ''Start playing music on Spotify'', albumArt = JStr [],
                progress = JNum 0, duration = JNum 0, error = JBool True\<rparr>"
    by blast
  ultimately have "\<exists>s'. getCurrentTrack answers_204 1000 signed_in =
      (Returns \<lparr>isPlaying = JBool False, track = JNull, artist = JStr ''No track playing'',
                album = JStr ''Start playing music on Spotify'', albumArt = JStr [],
                progress = JNum 0, duration = JNum 0, error = JBool True\<rparr>, s')"
    by simp
  with first show ?thesis by blast
qed

text \<open>
  C1, as the specification states it, fails on the code: with no expiry recorded the first
  branch is not taken. A fresh session (no expiry, no token) is told it is not
  authenticated, and a session with a token but no expiry sends the request.
\<close>

theorem getCurrentTrack_no_expiry_counterexample:
  \<open>tokenExpiresAt initial_state = Null \<and>
   getCurrentTrack answers_204 1000 initial_state =
     (Returns (createEmptyTrackInfo ''Not authenticated''
                 ''Run "Authenticate with Spotify" command''), initial_state) \<and>
   fst (getCurrentTrack answers_204 1000 initial_state) \<noteq>
     Returns (createEmptyTrackInfo ''Token expired'' ''Please re-authenticate with Spotify'') \<and>
   tokenExpiresAt token_only = Null \<and>
   fst (getCurrentTrack answers_204 1000 token_only) =
     Returns (createEmptyTrackInfo ''No track playing'' ''Start playing music on Spotify'') \<and>
   requests token_only = [] \<and>
   requests (snd (getCurrentTrack answers_204 1000 token_only)) =
     [spotifyApiOptions ''/v1/me/player/currently-playing'' token_only]\<close>
  by (simp add: getCurrentTrack_def initial_state_def token_only_def spotifyApiRequest_def
      answers_204_def getCurrentTrack_try_def createEmptyTrackInfo_def Let_def)

text \<open>
  C1, amended. When an expiry is recorded (a non-zero instant) and the clock has reached
  it, a poll returns the token-expired snapshot and leaves the state as it was: no request
  is logged, whatever the access token is.
\<close>

theorem getCurrentTrack_expired:
  assumes "tokenExpiresAt s = Value expiry" and "expiry \<noteq> 0" and "expiry \<le> now"
  shows "getCurrentTrack transport now s =
           (Returns (createEmptyTrackInfo ''Token expired'' ''Please re-authenticate with Spotify''), s)"
  using assms by (simp add: getCurrentTrack_def)

theorem getCurrentTrack_expired_witness:
  "getCurrentTrack answers_204 5000 signed_in =
     (Returns (createEmptyTrackInfo ''Token expired'' ''Please re-authenticate with Spotify''),
      signed_in) \<and>
   requests signed_in = []"
proof -
  have "tokenExpiresAt signed_in = Value 5000"
    by (simp add: signed_in_def initial_state_def)
  from getCurrentTrack_expired [OF this, of 5000 answers_204]
  show ?thesis by (simp add: signed_in_def initial_state_def)
qed

text \<open>
  The TypeErrors that the mapping of a payload can throw name a fixed property; none of
  their messages contains \<^verbatim>\<open>401\<close>.
\<close>

lemma and_then_Inl:
  "and_then x f = Inl e \<longleftrightarrow> x = Inl e \<or> (\<exists>v. x = Inr v \<and> f v = Inl e)"
  by (cases x) auto

lemma cannot_read_no_401:
  "what = ''undefined'' \<or> what = ''null'' \<Longrightarrow>
   p \<in> {''is_playing'', ''item'', ''id'', ''name'', ''artists'', ''map'', ''album'', ''images'',
        ''0'', ''url'', ''progress_ms'', ''duration_ms''} \<Longrightarrow>
   \<not> str_includes (message (cannot_read what p)) ''401''"
  by (auto simp: cannot_read_def)

lemma get_prop_Inl:
  "get_prop v p = Inl e \<Longrightarrow> e = cannot_read ''undefined'' p \<or> e = cannot_read ''null'' p"
  by (cases v) auto

lemma index0_Inl:
  "index0 v = Inl e \<Longrightarrow> e = cannot_read ''undefined'' ''0'' \<or> e = cannot_read ''null'' ''0''"
  by (cases v) auto

lemma opt_chain_Inr: "\<exists>x. opt_chain v p = Inr x"
  by (cases v) (auto simp: opt_chain_def)

lemma map_names_Inl:
  "map_names xs = Inl e \<Longrightarrow>
     e = cannot_read ''undefined'' ''name'' \<or> e = cannot_read ''null'' ''name''"
  by (induction xs) (auto simp: and_then_Inl dest: get_prop_Inl)

lemma artists_map_Inl:
  "artists_map v = Inl e \<Longrightarrow> \<not> str_includes (message e) ''401''"
proof (cases v)
  case (JArr xs)
  assume "artists_map v = Inl e"
  with JArr have "map_names xs = Inl e" by simp
  from map_names_Inl [OF this] show ?thesis
    using cannot_read_no_401 [of _ "''name''"] by auto
qed (auto simp: cannot_read_no_401)

lemma get_prop_Inl_no_401:
  assumes "get_prop v p = Inl e"
      and "p \<in> {''is_playing'', ''item'', ''id'', ''name'', ''artists'', ''map'', ''album'', ''images'',
        ''0'', ''url'', ''progress_ms'', ''duration_ms''}"
  shows "\<not> str_includes (message e) ''401''"
  using get_prop_Inl [OF assms(1)] cannot_read_no_401 [OF _ assms(2)] by auto

lemma index0_Inl_no_401:
  assumes "index0 v = Inl e"
  shows "\<not> str_includes (message e) ''401''"
  using index0_Inl [OF assms] cannot_read_no_401 [of _ "''0''"] by auto

lemma opt_chain_Inl_no_401:
  assumes "opt_chain v p = Inl e"
  shows "\<not> str_includes (message e) ''401''"
  using assms opt_chain_Inr [of v p] by auto

lemma trackInfo_Inl:
  assumes "trackInfo data = Inl e"
  shows "\<not> str_includes (message e) ''401''"
  using assms unfolding trackInfo_def and_then_Inl
  by (elim disjE exE conjE)
     (simp_all add: get_prop_Inl_no_401 artists_map_Inl index0_Inl_no_401 opt_chain_Inl_no_401)

lemma getCurrentTrack_try_Inl:
  assumes "getCurrentTrack_try data s = (Inl e, s')"
  shows "\<not> str_includes (message e) ''401''"
  using assms
  by (auto simp: getCurrentTrack_try_def Let_def get_prop_Inl_no_401 trackInfo_Inl
      split: if_splits sum.splits)

text \<open>
  What holds of the request's failures. With an unexpired session and a token, a socket
  error, no answer within the timeout, a status other than 200 and 204 and a 200 whose
  body does not decode each reject the request, and a rejection whose message contains
  \<^verbatim>\<open>401\<close> gives the authentication-expired snapshot, any other the connecting snapshot;
  so does a decoded body of the wrong shape, on which the mapping throws. A poll never
  throws.
\<close>

lemma getCurrentTrack_rejection:
  assumes fresh: "\<not> (truthy_num (tokenExpiresAt s) \<and> js_ge now (tokenExpiresAt s))"
      and token: "truthy_str (accessToken s)"
  shows
    "(\<forall>e. fst (spotifyApiRequest transport ''/v1/me/player/currently-playing'' s) = Throws e \<longrightarrow>
        fst (getCurrentTrack transport now s) =
          Returns (if str_includes (message e) ''401''
                   then createEmptyTrackInfo ''Authentication expired'' ''Please re-authenticate''
                   else createEmptyTrackInfo ''Connecting...'' ''Loading track info'')) \<and>
     (\<forall>e. transport (spotifyApiOptions ''/v1/me/player/currently-playing'' s) = HttpError e \<longrightarrow>
        fst (spotifyApiRequest transport ''/v1/me/player/currently-playing'' s) = Throws e) \<and>
     (transport (spotifyApiOptions ''/v1/me/player/currently-playing'' s) = HttpNoAnswer \<longrightarrow>
        fst (spotifyApiRequest transport ''/v1/me/player/currently-playing'' s) =
          Throws (Error ''Request timeout'') \<and>
        fst (getCurrentTrack transport now s) =
          Returns (createEmptyTrackInfo ''Connecting...'' ''Loading track info'')) \<and>
     (\<forall>statusCode body parsed.
        transport (spotifyApiOptions ''/v1/me/player/currently-playing'' s) =
          HttpResponse statusCode body parsed \<and> statusCode \<noteq> 204 \<and> statusCode \<noteq> 200 \<longrightarrow>
        fst (spotifyApiRequest transport ''/v1/me/player/currently-playing'' s) =
          Throws (Error (show_nat statusCode @ '': '' @ body))) \<and>
     (\<forall>body.
        transport (spotifyApiOptions ''/v1/me/player/currently-playing'' s) =
          HttpResponse 200 body None \<longrightarrow>
        fst (spotifyApiRequest transport ''/v1/me/player/currently-playing'' s) =
          Throws (Error ''Failed to parse response'') \<and>
        fst (getCurrentTrack transport now s) =
          Returns (createEmptyTrackInfo ''Connecting...'' ''Loading track info'')) \<and>
     (\<forall>data e s1 s2.
        spotifyApiRequest transport ''/v1/me/player/currently-playing'' s = (Returns data, s1) \<and>
        getCurrentTrack_try data s1 = (Inl e, s2) \<longrightarrow>
        fst (getCurrentTrack transport now s) =
          Returns (createEmptyTrackInfo ''Connecting...'' ''Loading track info'')) \<and>
     (\<forall>e. fst (getCurrentTrack transport now s) \<noteq> Throws e)"
proof -
  let ?P = "''/v1/me/player/currently-playing''"
  have misshapen: "fst (getCurrentTrack transport now s) =
          Returns (createEmptyTrackInfo ''Connecting...'' ''Loading track info'')"
    if "spotifyApiRequest transport ?P s = (Returns data, s1) \<and>
        getCurrentTrack_try data s1 = (Inl e, s2)" for data e s1 s2
    using that getCurrentTrack_try_Inl [of data s1 e s2]
    by (simp add: getCurrentTrack_fetch [OF fresh token] getCurrentTrack_catch_def Let_def)
  have rule: "fst (getCurrentTrack transport now s) =
          Returns (if str_includes (message e) ''401''
                   then createEmptyTrackInfo ''Authentication expired'' ''Please re-authenticate''
                   else createEmptyTrackInfo ''Connecting...'' ''Loading track info'')"
    if threw: "fst (spotifyApiRequest transport ?P s) = Throws e" for e
  proof -
    obtain s1 where "spotifyApiRequest transport ?P s = (Throws e, s1)"
      using threw by (cases "spotifyApiRequest transport ?P s") auto
    then show ?thesis
      by (simp add: getCurrentTrack_fetch [OF fresh token] getCurrentTrack_catch_def Let_def)
  qed
  have neterr: "fst (spotifyApiRequest transport ?P s) = Throws e"
    if "transport (spotifyApiOptions ?P s) = HttpError e" for e
    using that by (simp add: spotifyApiRequest_def Let_def)
  have silent: "fst (spotifyApiRequest transport ?P s) = Throws (Error ''Request timeout'')"
    if "transport (spotifyApiOptions ?P s) = HttpNoAnswer"
    using that by (simp add: spotifyApiRequest_def Let_def)
  have status: "fst (spotifyApiRequest transport ?P s) = Throws (Error (show_nat statusCode @ '': '' @ body))"
    if "transport (spotifyApiOptions ?P s) = HttpResponse statusCode body parsed"
      "statusCode \<noteq> 204" "statusCode \<noteq> 200" for statusCode body parsed
    using that by (simp add: spotifyApiRequest_def Let_def)
  have garbled: "fst (spotifyApiRequest transport ?P s) = Throws (Error ''Failed to parse response'')"
    if "transport (spotifyApiOptions ?P s) = HttpResponse 200 body None" for body
    using that by (simp add: spotifyApiRequest_def Let_def)
  have total: "fst (getCurrentTrack transport now s) \<noteq> Throws e" for e
    by (rule getCurrentTrack_never_throws)
  have no401: "\<not> str_includes ''Request timeout'' ''401''" "\<not> str_includes ''Failed to parse response'' ''401''"
    by simp_all
  have quiet: "fst (getCurrentTrack transport now s) =
          Returns (createEmptyTrackInfo ''Connecting...'' ''Loading track info'')"
    if "transport (spotifyApiOptions ?P s) = HttpNoAnswer"
    using rule [OF silent [OF that]] by simp
  have unread: "fst (getCurrentTrack transport now s) =
          Returns (createEmptyTrackInfo ''Connecting...'' ''Loading track info'')"
    if "transport (spotifyApiOptions ?P s) = HttpResponse 200 body None" for body
    using rule [OF garbled [OF that]] by simp
  show ?thesis
    using rule neterr silent quiet status garbled unread misshapen total by blast
qed

lemma getCurrentTrack_rejection_example:
  "fst (getCurrentTrack answers_401 1000 signed_in) =
     Returns (createEmptyTrackInfo ''Authentication expired'' ''Please re-authenticate'') \<and>
   fst (getCurrentTrack never_answers 1000 signed_in) =
     Returns (createEmptyTrackInfo ''Connecting...'' ''Loading track info'')"
proof -
  let ?P = "''/v1/me/player/currently-playing''"
  note unauthorised = getCurrentTrack_rejection [OF signed_in_fresh, of answers_401]
  note silent = getCurrentTrack_rejection [OF signed_in_fresh, of never_answers]
  have "answers_401 (spotifyApiOptions ?P signed_in) =
          HttpResponse 401 ''The access token expired'' None"
    by (simp add: answers_401_def)
  with unauthorised have "fst (spotifyApiRequest answers_401 ?P signed_in) =
          Throws (Error (show_nat 401 @ '': '' @ ''The access token expired''))"
    by simp
  with unauthorised have "fst (getCurrentTrack answers_401 1000 signed_in) =
     Returns (if str_includes (message (Error (show_nat 401 @ '': '' @ ''The access token expired''))) ''401''
                   then createEmptyTrackInfo ''Authentication expired'' ''Please re-authenticate''
                   else createEmptyTrackInfo ''Connecting...'' ''Loading track info'')"
    by blast
  moreover have "show_nat 401 = ''401''"
    by (simp add: show_nat.simps digit_char_def)
  ultimately have first: "fst (getCurrentTrack answers_401 1000 signed_in) =
     Returns (createEmptyTrackInfo ''Authentication expired'' ''Please re-authenticate'')"
    by simp
  have "never_answers (spotifyApiOptions ?P signed_in) = HttpNoAnswer"
    by (simp add: never_answers_def)
  with silent have "fst (getCurrentTrack never_answers 1000 signed_in) =
     Returns (createEmptyTrackInfo ''Connecting...'' ''Loading track info'')"
    by blast
  with first show ?thesis by simp
qed

text \<open>
  C5 fails on the code for one network failure: a response that is cut off. With the
  status received and the connection closed before the body ends, \<^verbatim>\<open>spotifyApiRequest\<close>
  neither resolves nor rejects, since nothing listens to the response beyond \<^verbatim>\<open>'data'\<close> and
  \<^verbatim>\<open>'end'\<close>; the poll then does not raise, but it never returns a snapshot either.
\<close>

theorem getCurrentTrack_cut_off_response:
  "answers_cut_off (spotifyApiOptions ''/v1/me/player/currently-playing'' signed_in) =
     HttpCutOff 200 \<and>
   fst (spotifyApiRequest answers_cut_off ''/v1/me/player/currently-playing'' signed_in) = Hangs \<and>
   getCurrentTrack answers_cut_off 1000 signed_in =
     (Hangs, signed_in\<lparr>requests :=
        [spotifyApiOptions ''/v1/me/player/currently-playing'' signed_in]\<rparr>)"
proof -
  have cut: "spotifyApiRequest answers_cut_off ''/v1/me/player/currently-playing'' signed_in =
      (Hangs, signed_in\<lparr>requests := requests signed_in @
         [spotifyApiOptions ''/v1/me/player/currently-playing'' signed_in]\<rparr>)"
    by (simp add: spotifyApiRequest_def answers_cut_off_def Let_def)
  moreover have "requests signed_in = []"
    by (simp add: signed_in_def initial_state_def)
  ultimately show ?thesis
    by (simp add: getCurrentTrack_fetch [OF signed_in_fresh] answers_cut_off_def)
qed

text \<open>
  C6. A 204 resolves the request to \<^verbatim>\<open>null\<close> whatever the body; and when the request
  resolves to \<^verbatim>\<open>null\<close>, to another falsy payload or to a payload whose \<^verbatim>\<open>item\<close> is missing
  or falsy, the poll returns the no-track snapshot, with the request logged and nothing
  reported as an error.
\<close>

theorem getCurrentTrack_nothing_playing:
  assumes fresh: "\<not> (truthy_num (tokenExpiresAt s) \<and> js_ge now (tokenExpiresAt s))"
      and token: "truthy_str (accessToken s)"
  shows
    "(\<forall>body parsed.
        transport (spotifyApiOptions ''/v1/me/player/currently-playing'' s) =
          HttpResponse 204 body parsed \<longrightarrow>
        fst (spotifyApiRequest transport ''/v1/me/player/currently-playing'' s) = Returns JNull) \<and>
     (\<forall>data.
        fst (spotifyApiRequest transport ''/v1/me/player/currently-playing'' s) = Returns data \<and>
        (data = JNull \<or> \<not> truthy data \<or>
         (\<exists>item. get_prop data ''item'' = Inr item \<and> \<not> truthy item)) \<longrightarrow>
        getCurrentTrack transport now s =
          (Returns (createEmptyTrackInfo ''No track playing'' ''Start playing music on Spotify''),
           s\<lparr>requests := requests s @ [spotifyApiOptions ''/v1/me/player/currently-playing'' s]\<rparr>))"
proof -
  let ?P = "''/v1/me/player/currently-playing''"
  have empty: "fst (spotifyApiRequest transport ?P s) = Returns JNull"
    if "transport (spotifyApiOptions ?P s) = HttpResponse 204 body parsed" for body parsed
    using that by (simp add: spotifyApiRequest_def Let_def)
  have idle: "getCurrentTrack transport now s =
          (Returns (createEmptyTrackInfo ''No track playing'' ''Start playing music on Spotify''),
           s\<lparr>requests := requests s @ [spotifyApiOptions ?P s]\<rparr>)"
    if got: "fst (spotifyApiRequest transport ?P s) = Returns data"
      and missing: "data = JNull \<or> \<not> truthy data \<or>
         (\<exists>item. get_prop data ''item'' = Inr item \<and> \<not> truthy item)" for data
  proof -
    have req: "spotifyApiRequest transport ?P s =
        (Returns data, s\<lparr>requests := requests s @ [spotifyApiOptions ?P s]\<rparr>)"
      using got spotifyApiRequest_state [of transport ?P s]
      by (cases "spotifyApiRequest transport ?P s") auto
    have "getCurrentTrack_try data s1 =
        (Inr (createEmptyTrackInfo ''No track playing'' ''Start playing music on Spotify''), s1)" for s1
      using missing by (auto simp: getCurrentTrack_try_def)
    with req show ?thesis
      by (simp add: getCurrentTrack_fetch [OF fresh token])
  qed
  from empty idle show ?thesis by blast
qed

theorem getCurrentTrack_nothing_playing_witness:
  "fst (spotifyApiRequest answers_204 ''/v1/me/player/currently-playing'' signed_in) = Returns JNull \<and>
   getCurrentTrack answers_204 1000 signed_in =
     (Returns (createEmptyTrackInfo ''No track playing'' ''Start playing music on Spotify''),
      signed_in\<lparr>requests := [spotifyApiOptions ''/v1/me/player/currently-playing'' signed_in]\<rparr>)"
proof -
  let ?P = "''/v1/me/player/currently-playing''"
  note silent204 = getCurrentTrack_nothing_playing [OF signed_in_fresh, of answers_204]
  have "answers_204 (spotifyApiOptions ?P signed_in) = HttpResponse 204 [] None"
    by (simp add: answers_204_def)
  with silent204 have empty: "fst (spotifyApiRequest answers_204 ?P signed_in) = Returns JNull"
    by simp
  with silent204 have "getCurrentTrack answers_204 1000 signed_in =
     (Returns (createEmptyTrackInfo ''No track playing'' ''Start playing music on Spotify''),
      signed_in\<lparr>requests := requests signed_in @ [spotifyApiOptions ?P signed_in]\<rparr>)"
    by blast
  moreover have "requests signed_in = []"
    by (simp add: signed_in_def initial_state_def)
  ultimately show ?thesis using empty by simp
qed








section \<open>The code challenge\<close>

text \<open>
  Replacing \<^verbatim>\<open>+\<close> and \<^verbatim>\<open>/\<close> and deleting \<^verbatim>\<open>=\<close> acts on the encoder's output one character
  at a time: it turns the standard alphabet into the URL-safe one position by position and
  removes exactly the padding.
\<close>

lemma replace_all_Nil: "replace_all c r [] = []"
  by (simp add: replace_all_def)

lemma replace_all_append: "replace_all c r (xs @ ys) = replace_all c r xs @ replace_all c r ys"
  by (simp add: replace_all_def)

lemma length_alphabets: "length base64_alphabet = 64" "length base64url_alphabet = 64"
  by (simp_all add: base64_alphabet_def base64url_alphabet_def)

lemma alphabets_aligned:
  "list_all2 (\<lambda>x y. replace_all (CHR ''='') [] (replace_all (CHR ''/'') ''_''
                       (replace_all (CHR ''+'') ''-'' [x])) = [y])
     base64_alphabet base64url_alphabet"
  by (simp add: base64_alphabet_def base64url_alphabet_def replace_all_def)

lemma alphabet_nth:
  assumes "i < 64"
  shows "replace_all (CHR ''='') [] (replace_all (CHR ''/'') ''_''
           (replace_all (CHR ''+'') ''-'' [base64_alphabet ! i])) = [base64url_alphabet ! i]"
  using list_all2_nthD [OF alphabets_aligned, of i] assms by (simp add: length_alphabets)

lemma encode_char:
  assumes "i < 64"
  shows "replace_all (CHR ''='') [] (replace_all (CHR ''/'') ''_''
           (replace_all (CHR ''+'') ''-'' (base64_alphabet ! i # xs)))
       = base64url_alphabet ! i # replace_all (CHR ''='') [] (replace_all (CHR ''/'') ''_''
           (replace_all (CHR ''+'') ''-'' xs))"
proof -
  have "base64_alphabet ! i # xs = [base64_alphabet ! i] @ xs" by simp
  then show ?thesis
    using alphabet_nth [OF assms] by (simp only: replace_all_append) simp
qed

lemma encode_pad:
  "replace_all (CHR ''='') [] (replace_all (CHR ''/'') ''_''
     (replace_all (CHR ''+'') ''-'' (CHR ''='' # xs)))
   = replace_all (CHR ''='') [] (replace_all (CHR ''/'') ''_'' (replace_all (CHR ''+'') ''-'' xs))"
  by (simp add: replace_all_def)

lemma sextet_bounds:
  fixes a b c :: "8 word"
  shows "unat a div 4 < 64" "unat a mod 4 * 16 < 64" "unat a mod 4 * 16 + unat b div 16 < 64"
    "unat b mod 16 * 4 < 64" "unat b mod 16 * 4 + unat c div 64 < 64" "unat c mod 64 < 64"
proof -
  have a: "unat a < 256" and b: "unat b < 256" and c: "unat c < 256"
    using unsigned_less [of a] unsigned_less [of b] unsigned_less [of c] by simp_all
  show "unat a div 4 < 64" using a by simp
  show "unat a mod 4 * 16 < 64" by arith
  show "unat a mod 4 * 16 + unat b div 16 < 64" using b by arith
  show "unat b mod 16 * 4 < 64" by arith
  show "unat b mod 16 * 4 + unat c div 64 < 64" using c by arith
  show "unat c mod 64 < 64" by simp
qed

lemma base64URLEncode_refines: "base64URLEncode buffer = spec_base64url_nopad buffer"
proof (induction buffer rule: toString_base64.induct)
  case 1
  show ?case by (simp add: base64URLEncode_def replace_all_Nil)
next
  case (2 a)
  show ?case
    by (simp add: base64URLEncode_def encode_char sextet_bounds encode_pad replace_all_Nil)
next
  case (3 a b)
  show ?case
    by (simp add: base64URLEncode_def encode_char sextet_bounds encode_pad replace_all_Nil)
next
  case (4 a b c rest)
  then show ?case
    by (simp add: base64URLEncode_def encode_char sextet_bounds)
qed

text \<open>
  C4. The challenge is a function of the verifier and of the digest alone: it is the
  standard base64 text of the SHA-256 digest with every \<^verbatim>\<open>+\<close> replaced by \<^verbatim>\<open>-\<close>, every \<^verbatim>\<open>/\<close>
  by \<^verbatim>\<open>_\<close> and every \<^verbatim>\<open>=\<close> removed, and it equals the reference base64url-without-padding
  encoding of that digest.
\<close>

theorem generateCodeChallenge_base64url:
  "generateCodeChallenge sha256 codeVerifier =
     replace_all (CHR ''='') [] (replace_all (CHR ''/'') ''_'' (replace_all (CHR ''+'') ''-''
       (toString_base64 (sha256 codeVerifier)))) \<and>
   generateCodeChallenge sha256 codeVerifier = spec_challenge sha256 codeVerifier"
  by (simp add: generateCodeChallenge_def spec_challenge_def base64URLEncode_refines [symmetric]
      base64URLEncode_def)

theorem generateCodeChallenge_base64url_witness:
  "generateCodeChallenge stub_digest ''verifier'' = ''-__-AQ'' \<and>
   toString_base64 (stub_digest ''verifier'') = ''+//+AQ=='' \<and>
   spec_challenge stub_digest ''verifier'' = ''-__-AQ''"
proof -
  have plain: "toString_base64 (stub_digest ''verifier'') = ''+//+AQ==''"
    by (simp add: stub_digest_def base64_alphabet_def)
  from generateCodeChallenge_base64url [of stub_digest "''verifier''"]
  have "generateCodeChallenge stub_digest ''verifier'' =
          replace_all (CHR ''='') [] (replace_all (CHR ''/'') ''_'' (replace_all (CHR ''+'') ''-''
            (toString_base64 (stub_digest ''verifier''))))"
    and same: "generateCodeChallenge stub_digest ''verifier'' = spec_challenge stub_digest ''verifier''"
    by blast+
  with plain have "generateCodeChallenge stub_digest ''verifier'' = ''-__-AQ''"
    by (simp add: replace_all_def)
  with plain same show ?thesis by simp
qed

section \<open>The authenticator's state\<close>

lemma exchangeCodeForToken_state:
  "snd (exchangeCodeForToken transport code codeVerifier clientId s) =
     s\<lparr>requests := requests s @ [exchangeOptions (URLSearchParams_toString
            [(''client_id'', clientId), (''grant_type'', ''authorization_code''), (''code'', code),
             (''redirect_uri'', REDIRECT_URI), (''code_verifier'', codeVerifier)])]\<rparr>"
  by (simp add: exchangeCodeForToken_def Let_def)

lemma completeAuthentication_resolved:
  assumes "exchangeCodeForToken transport code codeVerifier clientId s = (Returns tokens, s1)"
  shows "completeAuthentication transport now code codeVerifier clientId s =
    (Returns (),
     s1\<lparr>accessToken := Value (access_token tokens),
        tokenExpiresAt := Value (now + expires_in tokens * 1000),
        globalState := (globalState s1)\<lparr>spotifyAccessToken := Value (access_token tokens),
          spotifyTokenExpiresAt := Value (now + expires_in tokens * 1000)\<rparr>,
        notifications := notifications s1 @
          [InformationMessage ''Successfully authenticated with Spotify!'']\<rparr>)"
  using assms by (simp add: completeAuthentication_def Let_def showInformationMessage_def)

lemma completeAuthentication_rejected:
  assumes "exchangeCodeForToken transport code codeVerifier clientId s = (Throws e, s1)"
  shows "completeAuthentication transport now code codeVerifier clientId s =
    (Throws e, s1\<lparr>notifications := notifications s1 @
       [ErrorMessage (''Authentication failed: '' @ message e)]\<rparr>)"
  using assms by (simp add: completeAuthentication_def showErrorMessage_def)



text \<open>
  What holds of \<^verbatim>\<open>completeAuthentication\<close>. When the exchange resolves with a token
  response, the call returns and the credential, in the module variables and in the store,
  is the new access token with the expiry instant \<open>now + expires_in\<close>: the clock is in
  milliseconds and \<^verbatim>\<open>expires_in\<close> in seconds, so the number stored is
  \<open>now + expires_in * 1000\<close>. When the exchange rejects, the error is shown and thrown
  on, and access token, expiry and store are what they were. When the exchange settles
  neither way, the credential is untouched as well, but the call does not return and
  nothing is shown.
\<close>

lemma completeAuthentication_outcomes:
  "(\<forall>tokens s1.
      exchangeCodeForToken transport code codeVerifier clientId s = (Returns tokens, s1) \<longrightarrow>
      (\<exists>s'. completeAuthentication transport now code codeVerifier clientId s = (Returns (), s') \<and>
            accessToken s' = Value (access_token tokens) \<and>
            tokenExpiresAt s' = Value (now + expires_in tokens * 1000) \<and>
            spotifyAccessToken (globalState s') = Value (access_token tokens) \<and>
            spotifyTokenExpiresAt (globalState s') = Value (now + expires_in tokens * 1000))) \<and>
   (\<forall>e s1.
      exchangeCodeForToken transport code codeVerifier clientId s = (Throws e, s1) \<longrightarrow>
      (\<exists>s'. completeAuthentication transport now code codeVerifier clientId s = (Throws e, s') \<and>
            notifications s' =
              notifications s @ [ErrorMessage (''Authentication failed: '' @ message e)] \<and>
            accessToken s' = accessToken s \<and> tokenExpiresAt s' = tokenExpiresAt s \<and>
            globalState s' = globalState s)) \<and>
   (\<forall>s1.
      exchangeCodeForToken transport code codeVerifier clientId s = (Hangs, s1) \<longrightarrow>
      (\<exists>s'. completeAuthentication transport now code codeVerifier clientId s = (Hangs, s') \<and>
            notifications s' = notifications s \<and>
            accessToken s' = accessToken s \<and> tokenExpiresAt s' = tokenExpiresAt s \<and>
            globalState s' = globalState s))"
proof (intro conjI allI impI)
  fix tokens s1
  assume "exchangeCodeForToken transport code codeVerifier clientId s = (Returns tokens, s1)"
  then show "\<exists>s'. completeAuthentication transport now code codeVerifier clientId s = (Returns (), s') \<and>
            accessToken s' = Value (access_token tokens) \<and>
            tokenExpiresAt s' = Value (now + expires_in tokens * 1000) \<and>
            spotifyAccessToken (globalState s') = Value (access_token tokens) \<and>
            spotifyTokenExpiresAt (globalState s') = Value (now + expires_in tokens * 1000)"
    by (simp add: completeAuthentication_resolved)
next
  fix e s1
  assume refused: "exchangeCodeForToken transport code codeVerifier clientId s = (Throws e, s1)"
  from refused exchangeCodeForToken_state [of transport code codeVerifier clientId s]
  have "accessToken s1 = accessToken s" "tokenExpiresAt s1 = tokenExpiresAt s"
    "globalState s1 = globalState s" "notifications s1 = notifications s"
    by auto
  then show "\<exists>s'. completeAuthentication transport now code codeVerifier clientId s = (Throws e, s') \<and>
            notifications s' =
              notifications s @ [ErrorMessage (''Authentication failed: '' @ message e)] \<and>
            accessToken s' = accessToken s \<and> tokenExpiresAt s' = tokenExpiresAt s \<and>
            globalState s' = globalState s"
    by (simp add: completeAuthentication_rejected [OF refused])
next
  fix s1
  assume silent: "exchangeCodeForToken transport code codeVerifier clientId s = (Hangs, s1)"
  from silent exchangeCodeForToken_state [of transport code codeVerifier clientId s]
  have "accessToken s1 = accessToken s" "tokenExpiresAt s1 = tokenExpiresAt s"
    "globalState s1 = globalState s" "notifications s1 = notifications s"
    by auto
  with silent show "\<exists>s'. completeAuthentication transport now code codeVerifier clientId s = (Hangs, s') \<and>
            notifications s' = notifications s \<and>
            accessToken s' = accessToken s \<and> tokenExpiresAt s' = tokenExpiresAt s \<and>
            globalState s' = globalState s"
    by (simp add: completeAuthentication_def)
qed

lemma completeAuthentication_outcomes_example:
  "fst (completeAuthentication token_grants 1000 ''AQD'' ''verifier'' ''client'' initial_state) =
     Returns () \<and>
   accessToken (snd (completeAuthentication token_grants 1000 ''AQD'' ''verifier'' ''client''
     initial_state)) = Value ''BQD'' \<and>
   tokenExpiresAt (snd (completeAuthentication token_grants 1000 ''AQD'' ''verifier'' ''client''
     initial_state)) = Value 3601000 \<and>
   fst (completeAuthentication token_rejects 1000 ''AQD'' ''verifier'' ''client'' signed_in) =
     Throws (Error ''Token exchange failed: invalid_grant'') \<and>
   accessToken (snd (completeAuthentication token_rejects 1000 ''AQD'' ''verifier'' ''client''
     signed_in)) = Value ''BQD'' \<and>
   tokenExpiresAt (snd (completeAuthentication token_rejects 1000 ''AQD'' ''verifier'' ''client''
     signed_in)) = Value 5000"
proof -
  have granted: "exchangeCodeForToken token_grants ''AQD'' ''verifier'' ''client'' initial_state =
      (Returns \<lparr>access_token = ''BQD'', expires_in = 3600\<rparr>,
       snd (exchangeCodeForToken token_grants ''AQD'' ''verifier'' ''client'' initial_state))"
    by (simp add: exchangeCodeForToken_def token_grants_def Let_def)
  have refused: "exchangeCodeForToken token_rejects ''AQD'' ''verifier'' ''client'' signed_in =
      (Throws (Error ''Token exchange failed: invalid_grant''),
       snd (exchangeCodeForToken token_rejects ''AQD'' ''verifier'' ''client'' signed_in))"
    by (simp add: exchangeCodeForToken_def token_rejects_def Let_def)
  from completeAuthentication_outcomes
         [of token_grants "''AQD''" "''verifier''" "''client''" initial_state 1000] granted
  obtain s' where "completeAuthentication token_grants 1000 ''AQD'' ''verifier'' ''client''
        initial_state = (Returns (), s')"
    and "accessToken s' = Value (access_token \<lparr>access_token = ''BQD'', expires_in = 3600\<rparr>)"
    and "tokenExpiresAt s' =
           Value (1000 + expires_in \<lparr>access_token = ''BQD'', expires_in = 3600\<rparr> * 1000)"
    by blast
  then have good:
    "fst (completeAuthentication token_grants 1000 ''AQD'' ''verifier'' ''client'' initial_state) =
       Returns ()"
    "accessToken (snd (completeAuthentication token_grants 1000 ''AQD'' ''verifier'' ''client''
       initial_state)) = Value ''BQD''"
    "tokenExpiresAt (snd (completeAuthentication token_grants 1000 ''AQD'' ''verifier'' ''client''
       initial_state)) = Value 3601000"
    by simp_all
  from completeAuthentication_outcomes
         [of token_rejects "''AQD''" "''verifier''" "''client''" signed_in 1000] refused
  obtain s'' where "completeAuthentication token_rejects 1000 ''AQD'' ''verifier'' ''client''
        signed_in = (Throws (Error ''Token exchange failed: invalid_grant''), s'')"
    and "accessToken s'' = accessToken signed_in" and "tokenExpiresAt s'' = tokenExpiresAt signed_in"
    by blast
  then have bad:
    "fst (completeAuthentication token_rejects 1000 ''AQD'' ''verifier'' ''client'' signed_in) =
       Throws (Error ''Token exchange failed: invalid_grant'')"
    "accessToken (snd (completeAuthentication token_rejects 1000 ''AQD'' ''verifier'' ''client''
       signed_in)) = Value ''BQD''"
    "tokenExpiresAt (snd (completeAuthentication token_rejects 1000 ''AQD'' ''verifier'' ''client''
       signed_in)) = Value 5000"
    by (simp_all add: signed_in_def initial_state_def)
  from good bad show ?thesis by simp
qed

text \<open>
  C3 fails on the code for an exchange that fails without rejecting. A token endpoint that
  answers 200 with a body that is not JSON makes \<^verbatim>\<open>JSON.parse\<close> throw inside the response
  listener of \<^verbatim>\<open>exchangeCodeForToken\<close>, which has no \<^verbatim>\<open>try\<close> around it: the promise never
  settles, \<^verbatim>\<open>completeAuthentication\<close> never returns and no error is shown, although the
  stored credential is left as it was. \<^verbatim>\<open>spotifyApiRequest\<close>, given the same kind of
  response, catches the exception and rejects.
\<close>

theorem completeAuthentication_undecodable_body:
  "token_garbled (exchangeOptions (URLSearchParams_toString
       [(''client_id'', ''client''), (''grant_type'', ''authorization_code''), (''code'', ''AQD''),
        (''redirect_uri'', REDIRECT_URI), (''code_verifier'', ''verifier'')])) =
     HttpResponse 200 ''<html>Sign in to the network</html>'' None \<and>
   fst (exchangeCodeForToken token_garbled ''AQD'' ''verifier'' ''client'' signed_in) = Hangs \<and>
   fst (completeAuthentication token_garbled 1000 ''AQD'' ''verifier'' ''client'' signed_in) = Hangs \<and>
   notifications (snd (completeAuthentication token_garbled 1000 ''AQD'' ''verifier'' ''client''
     signed_in)) = [] \<and>
   accessToken (snd (completeAuthentication token_garbled 1000 ''AQD'' ''verifier'' ''client''
     signed_in)) = Value ''BQD'' \<and>
   tokenExpiresAt (snd (completeAuthentication token_garbled 1000 ''AQD'' ''verifier'' ''client''
     signed_in)) = Value 5000 \<and>
   fst (spotifyApiRequest answers_garbled ''/v1/me/player/currently-playing'' signed_in) =
     Throws (Error ''Failed to parse response'')"
proof -
  let ?sent = "signed_in\<lparr>requests := requests signed_in @ [exchangeOptions (URLSearchParams_toString
       [(''client_id'', ''client''), (''grant_type'', ''authorization_code''), (''code'', ''AQD''),
        (''redirect_uri'', REDIRECT_URI), (''code_verifier'', ''verifier'')])]\<rparr>"
  have stuck: "exchangeCodeForToken token_garbled ''AQD'' ''verifier'' ''client'' signed_in =
      (Hangs, ?sent)"
    by (simp add: exchangeCodeForToken_def token_garbled_def Let_def)
  then have whole: "completeAuthentication token_garbled 1000 ''AQD'' ''verifier'' ''client'' signed_in =
      (Hangs, ?sent)"
    by (simp add: completeAuthentication_def)
  have sibling: "fst (spotifyApiRequest answers_garbled ''/v1/me/player/currently-playing'' signed_in) =
     Throws (Error ''Failed to parse response'')"
    by (simp add: spotifyApiRequest_def answers_garbled_def Let_def)
  have start: "notifications signed_in = []" "accessToken signed_in = Value ''BQD''"
    "tokenExpiresAt signed_in = Value 5000"
    by (simp_all add: signed_in_def initial_state_def)
  from stuck whole sibling start show ?thesis
    by (simp add: token_garbled_def)
qed




text \<open>
  The manual-paste path of \<^verbatim>\<open>authenticateSpotify\<close> completes with the verifier it holds
  locally and never clears the pending one, whatever the outcome of the exchange.
\<close>

lemma completeAuthentication_keeps_verifier:
  "pendingCodeVerifier (snd (completeAuthentication transport now code codeVerifier clientId s)) =
     pendingCodeVerifier s \<and>
   pendingCodeVerifierEntry (globalState
     (snd (completeAuthentication transport now code codeVerifier clientId s))) =
     pendingCodeVerifierEntry (globalState s)"
proof -
  obtain r s1 where ex: "exchangeCodeForToken transport code codeVerifier clientId s = (r, s1)"
    by (cases "exchangeCodeForToken transport code codeVerifier clientId s")
  with exchangeCodeForToken_state [of transport code codeVerifier clientId s]
  have s1: "pendingCodeVerifier s1 = pendingCodeVerifier s" "globalState s1 = globalState s"
    by auto
  show ?thesis
  proof (cases r)
    case (Returns tokens)
    with ex s1 show ?thesis by (simp add: completeAuthentication_resolved)
  next
    case (Throws e)
    with ex s1 show ?thesis by (simp add: completeAuthentication_rejected)
  next
    case Hangs
    with ex s1 show ?thesis by (simp add: completeAuthentication_def)
  qed
qed

lemma authenticateSpotify_manual_paste_keeps_verifier:
  assumes "result = Some ''Open Spotify Login''" and "manualInput = Some input" and "input \<noteq> []"
  shows "pendingCodeVerifier
           (snd (authenticateSpotify transport now getRandomValues sha256 result manualInput s)) =
         Value (generateRandomString getRandomValues 128)"
  using assms
  by (simp add: authenticateSpotify_def Let_def completeAuthentication_keeps_verifier
      showInformationMessage_def)

lemma completeAuthentication_Returns:
  assumes "completeAuthentication transport now code codeVerifier clientId s = (Returns (), s')"
  shows "\<exists>tokens s1. exchangeCodeForToken transport code codeVerifier clientId s = (Returns tokens, s1)"
  using assms
  by (cases "exchangeCodeForToken transport code codeVerifier clientId s")
     (auto simp: completeAuthentication_def split: completion.splits)

text \<open>
  C8. An expiry instant written to the store under \<^verbatim>\<open>'spotifyTokenExpiresAt'\<close> is what that
  key reads back, and what \<^verbatim>\<open>activate\<close> loads from it; in particular the instant that a
  successful \<^verbatim>\<open>completeAuthentication\<close> records is the one a restarted extension starts
  with.
\<close>

theorem expiry_storage_roundtrip:
  "spotifyTokenExpiresAt ((globalState s)\<lparr>spotifyTokenExpiresAt := Value t\<rparr>) = Value t \<and>
   tokenExpiresAt (activate (s\<lparr>globalState := (globalState s)\<lparr>spotifyTokenExpiresAt := Value t\<rparr>\<rparr>)) =
     Value t \<and>
   (\<forall>s'. completeAuthentication transport now code codeVerifier clientId s = (Returns (), s') \<longrightarrow>
      (\<exists>expiry. tokenExpiresAt s' = Value expiry \<and>
         tokenExpiresAt (activate (initial_state\<lparr>globalState := globalState s'\<rparr>)) = Value expiry))"
proof (intro conjI allI impI)
  show "spotifyTokenExpiresAt ((globalState s)\<lparr>spotifyTokenExpiresAt := Value t\<rparr>) = Value t"
    by simp
  show "tokenExpiresAt (activate (s\<lparr>globalState := (globalState s)\<lparr>spotifyTokenExpiresAt := Value t\<rparr>\<rparr>)) =
     Value t"
    by (simp add: activate_def Let_def)
next
  fix s'
  assume ok: "completeAuthentication transport now code codeVerifier clientId s = (Returns (), s')"
  then obtain tokens s1 where
    "exchangeCodeForToken transport code codeVerifier clientId s = (Returns tokens, s1)"
    using completeAuthentication_Returns by blast
  from completeAuthentication_resolved [OF this, of now] ok
  have "tokenExpiresAt s' = Value (now + expires_in tokens * 1000)"
    "spotifyTokenExpiresAt (globalState s') = Value (now + expires_in tokens * 1000)"
    by auto
  then show "\<exists>expiry. tokenExpiresAt s' = Value expiry \<and>
         tokenExpiresAt (activate (initial_state\<lparr>globalState := globalState s'\<rparr>)) = Value expiry"
    by (simp add: activate_def Let_def)
qed

theorem expiry_storage_roundtrip_witness:
  "tokenExpiresAt (activate (initial_state\<lparr>globalState :=
      (globalState initial_state)\<lparr>spotifyTokenExpiresAt := Value 3601000\<rparr>\<rparr>)) = Value 3601000 \<and>
   tokenExpiresAt (activate (initial_state\<lparr>globalState := globalState
      (snd (completeAuthentication token_grants 1000 ''AQD'' ''verifier'' ''client'' initial_state))\<rparr>)) =
     Value 3601000"
proof -
  note roundtrip = expiry_storage_roundtrip
      [where s = initial_state and t = 3601000 and transport = token_grants and now = 1000
         and code = "''AQD''" and codeVerifier = "''verifier''" and clientId = "''client''"]
  have granted: "exchangeCodeForToken token_grants ''AQD'' ''verifier'' ''client'' initial_state =
      (Returns \<lparr>access_token = ''BQD'', expires_in = 3600\<rparr>,
       snd (exchangeCodeForToken token_grants ''AQD'' ''verifier'' ''client'' initial_state))"
    by (simp add: exchangeCodeForToken_def token_grants_def Let_def)
  let ?s' = "snd (completeAuthentication token_grants 1000 ''AQD'' ''verifier'' ''client'' initial_state)"
  have ran: "completeAuthentication token_grants 1000 ''AQD'' ''verifier'' ''client'' initial_state =
      (Returns (), ?s')"
    by (simp add: completeAuthentication_resolved [OF granted])
  have set: "tokenExpiresAt ?s' = Value 3601000"
    by (simp add: completeAuthentication_resolved [OF granted])
  from roundtrip ran obtain expiry where "tokenExpiresAt ?s' = Value expiry"
    and "tokenExpiresAt (activate (initial_state\<lparr>globalState := globalState ?s'\<rparr>)) = Value expiry"
    by blast
  with set have "tokenExpiresAt (activate (initial_state\<lparr>globalState := globalState ?s'\<rparr>)) =
      Value 3601000"
    by simp
  with roundtrip show ?thesis by blast
qed

section \<open>The command relay's frame\<close>

text \<open>
  C9. For each of the three commands and each outcome of the keystroke injection,
  \<^verbatim>\<open>sendSpotifyCommand\<close> returns no value and leaves the access token, the expiry, the
  pending verifier, the store, the panel and timer handles, the last track id and the
  request log as they were; a failure adds a console line and, when the call itself
  throws, one notification.
\<close>

theorem sendSpotifyCommand_frame:
  "\<exists>s'. sendSpotifyCommand exec command s = (Returns (), s') \<and>
     accessToken s' = accessToken s \<and> tokenExpiresAt s' = tokenExpiresAt s \<and>
     pendingCodeVerifier s' = pendingCodeVerifier s \<and> globalState s' = globalState s \<and>
     spotifyPanel s' = spotifyPanel s \<and> updateInterval s' = updateInterval s \<and>
     lastTrackId s' = lastTrackId s \<and> requests s' = requests s \<and>
     (case exec (commandLine command) of
        ExecDone \<Rightarrow> console s' = console s \<and> notifications s' = notifications s
      | ExecFailed err \<Rightarrow>
          console s' = console s @ [''Error sending command: '' @ err] \<and>
          notifications s' = notifications s
      | ExecThrows e \<Rightarrow>
          console s' = console s @ [''Error sending Spotify command: '' @ message e] \<and>
          notifications s' = notifications s @
            [ErrorMessage ''Failed to control Spotify. Make sure Spotify is running.''])"
  by (cases "exec (commandLine command)")
     (simp_all add: sendSpotifyCommand_def console_error_def showErrorMessage_def)

theorem sendSpotifyCommand_frame_witness:
  "\<exists>s'. sendSpotifyCommand exec_fails Next signed_in = (Returns (), s') \<and>
     accessToken s' = Value ''BQD'' \<and> tokenExpiresAt s' = Value 5000 \<and>
     pendingCodeVerifier s' = Null \<and> lastTrackId s' = JNull \<and>
     console s' = [''Error sending command: spawn powershell ENOENT''] \<and>
     notifications s' = []"
proof -
  from sendSpotifyCommand_frame [of exec_fails Next signed_in]
  obtain s' where "sendSpotifyCommand exec_fails Next signed_in = (Returns (), s')"
    and "accessToken s' = accessToken signed_in" and "tokenExpiresAt s' = tokenExpiresAt signed_in"
    and "pendingCodeVerifier s' = pendingCodeVerifier signed_in"
    and "lastTrackId s' = lastTrackId signed_in"
    and "case exec_fails (commandLine Next) of
        ExecDone \<Rightarrow> console s' = console signed_in \<and> notifications s' = notifications signed_in
      | ExecFailed err \<Rightarrow>
          console s' = console signed_in @ [''Error sending command: '' @ err] \<and>
          notifications s' = notifications signed_in
      | ExecThrows e \<Rightarrow>
          console s' = console signed_in @ [''Error sending Spotify command: '' @ message e] \<and>
          notifications s' = notifications signed_in @
            [ErrorMessage ''Failed to control Spotify. Make sure Spotify is running.'']"
    by blast
  then show ?thesis
    by (simp add: exec_fails_def signed_in_def initial_state_def)
qed

end
